theory Spec2Isabelle
  imports Complex_Main "HOL-Library.Word"
begin

section \<open>Data model\<close>

text \<open>
  The exceptions the modelled code raises, as values. \<open>NotImplementedError\<close> carries
  its message.
\<close>

datatype error =
    FileNotFoundError
  | NotImplementedError string
  | ValueError
  | IndexError
  | AttributeError

type_synonym uint8 = "8 word"
type_synonym uint16 = "16 word"

text \<open>A row of an \<open>(N, 3)\<close> array: an RGB triplet of \<open>uint8\<close>, a LAB triplet of floats.\<close>

type_synonym rgb = "uint8 \<times> uint8 \<times> uint8"
type_synonym 'f lab = "'f \<times> 'f \<times> 'f"

section \<open>The numpy operations used by \<open>_get_all_rgbs\<close>\<close>

text \<open>
  A one-dimensional array is a list, a two-dimensional array the list of its rows.
  \<open>np.arange(n, dtype=np.uint8)\<close>, \<open>a.repeat(k)\<close> (every element \<open>k\<close> times in a row),
  \<open>a.reshape((-1, k))\<close> (rows of \<open>k\<close> consecutive elements; the sizes in the source are
  exact multiples of \<open>k\<close>), \<open>m.T\<close> and \<open>m.ravel()\<close> (row-major).
\<close>

definition arange :: "nat \<Rightarrow> uint8 list" where
  "arange n = map of_nat [0..<n]"

definition repeat :: "'a list \<Rightarrow> nat \<Rightarrow> 'a list" where
  "repeat xs k = concat (map (replicate k) xs)"

definition reshape :: "'a list \<Rightarrow> nat \<Rightarrow> 'a list list" where
  "reshape xs k = map (\<lambda>p. map (\<lambda>q. xs ! (p * k + q)) [0..<k]) [0..<length xs div k]"

definition T :: "'a list list \<Rightarrow> 'a list list" where
  "T m = (case m of [] \<Rightarrow> [] | row # _ \<Rightarrow> map (\<lambda>q. map (\<lambda>r. r ! q) m) [0..<length row])"

definition ravel :: "'a list list \<Rightarrow> 'a list" where
  "ravel m = concat m"

text \<open>
  \<open>_get_all_rgbs\<close>: the three columns of the \<open>(256**3, 3)\<close> array are assigned one
  after the other; the array is the list of its rows.
\<close>

definition get_all_rgbs :: "rgb list" where
  "get_all_rgbs =
     (let arr = repeat (arange 256) (256 ^ 2);
          c0 = arr;
          c1 = ravel (T (reshape arr 256));
          c2 = ravel (T (reshape arr (256 ^ 2)))
      in zip c0 (zip c1 c2))"

section \<open>The lookup table builder\<close>

text \<open>
  \<open>np.argmin\<close> of a one-dimensional array: the index of the first occurrence of the
  minimum; \<open>ValueError\<close> on an empty array. The scan keeps the index and the value of
  the best element so far and replaces them only by a strictly smaller element.
\<close>

primrec argmin_scan :: "'d::linorder list \<Rightarrow> nat \<Rightarrow> nat \<Rightarrow> 'd \<Rightarrow> nat" where
  "argmin_scan [] i best bv = best"
| "argmin_scan (x # xs) i best bv =
     (if x < bv then argmin_scan xs (Suc i) i x else argmin_scan xs (Suc i) best bv)"

definition argmin :: "'d::linorder list \<Rightarrow> error + nat" where
  "argmin xs = (case xs of [] \<Rightarrow> Inl ValueError | x # ys \<Rightarrow> Inr (argmin_scan ys 1 0 x))"

text \<open>
  \<open>delta_e_cie2000\<close> lives in \<open>jcc.diff\<close> and \<open>rgb_to_lab\<close> in \<open>jcc.convert\<close>; both
  are parameters here. \<open>delta_e l1 a1 b1 l2 a2 b2\<close> stands for the value that the
  assignment \<open>deltaes[j] = delta_e_cie2000(...)\<close> stores in the \<open>float32\<close> array
  \<open>deltaes\<close>; the stored values are compared by \<open>np.argmin\<close> and are taken to be
  totally ordered (no NaN).
\<close>

definition lab_distance :: "('f \<Rightarrow> 'f \<Rightarrow> 'f \<Rightarrow> 'f \<Rightarrow> 'f \<Rightarrow> 'f \<Rightarrow> 'd) \<Rightarrow> 'f lab \<Rightarrow> 'f lab \<Rightarrow> 'd" where
  "lab_distance delta_e lab1 lab2 =
     (case lab1 of (l1, a1, b1) \<Rightarrow> case lab2 of (l2, a2, b2) \<Rightarrow> delta_e l1 a1 b1 l2 a2 b2)"

text \<open>The inner loop over \<open>j\<close>: every slot of \<open>deltaes\<close> is written once.\<close>

definition deltaes :: "('f \<Rightarrow> 'f \<Rightarrow> 'f \<Rightarrow> 'f \<Rightarrow> 'f \<Rightarrow> 'f \<Rightarrow> 'd) \<Rightarrow> 'f lab list \<Rightarrow> 'f lab \<Rightarrow> 'd list" where
  "deltaes delta_e arr_lab lab1 = map (\<lambda>lab2. lab_distance delta_e lab1 lab2) arr_lab"

text \<open>
  One iteration \<open>i\<close> of the outer loop: \<open>out[i] = np.argmin(deltaes)\<close>, the index
  converted to \<open>uint16\<close> by the store. On an empty palette \<open>deltaes\<close> is empty and
  \<open>np.argmin\<close> has nothing to return; the loop compiled with \<open>parallel=True\<close> does
  not propagate the \<open>ValueError\<close>: nothing is raised and the slot keeps the 0 it was
  created with.
\<close>

definition lookup_step ::
  "('f \<Rightarrow> 'f \<Rightarrow> 'f \<Rightarrow> 'f \<Rightarrow> 'f \<Rightarrow> 'f \<Rightarrow> 'd::linorder) \<Rightarrow> 'f lab list \<Rightarrow> 'f lab list
     \<Rightarrow> nat \<Rightarrow> uint16 list \<Rightarrow> error + uint16 list" where
  "lookup_step delta_e arr_lab all_lab i out =
     (case argmin (deltaes delta_e arr_lab (all_lab ! i)) of
        Inl e \<Rightarrow> Inr out
      | Inr j \<Rightarrow> Inr (out[i := of_nat j]))"

text \<open>
  A \<open>prange\<close> loop runs its iterations in an order chosen by the scheduler: the
  schedule is the list of the iteration indices in the order in which they run.
\<close>

fun prange_loop :: "(nat \<Rightarrow> 's \<Rightarrow> error + 's) \<Rightarrow> nat list \<Rightarrow> 's \<Rightarrow> error + 's" where
  "prange_loop body [] s = Inr s"
| "prange_loop body (i # sched) s =
     (case body i s of Inl e \<Rightarrow> Inl e | Inr s' \<Rightarrow> prange_loop body sched s')"

definition create_lookup_table_sched ::
  "('f \<Rightarrow> 'f \<Rightarrow> 'f \<Rightarrow> 'f \<Rightarrow> 'f \<Rightarrow> 'f \<Rightarrow> 'd::linorder) \<Rightarrow> nat list \<Rightarrow> 'f lab list \<Rightarrow> 'f lab list
     \<Rightarrow> error + uint16 list" where
  "create_lookup_table_sched delta_e sched arr_lab all_lab =
     prange_loop (lookup_step delta_e arr_lab all_lab) sched (replicate (256 ^ 3) 0)"

text \<open>\<open>_create_lookup_table\<close>, its iterations in index order.\<close>

definition create_lookup_table ::
  "('f \<Rightarrow> 'f \<Rightarrow> 'f \<Rightarrow> 'f \<Rightarrow> 'f \<Rightarrow> 'f \<Rightarrow> 'd::linorder) \<Rightarrow> 'f lab list \<Rightarrow> 'f lab list
     \<Rightarrow> error + uint16 list" where
  "create_lookup_table delta_e arr_lab all_lab =
     create_lookup_table_sched delta_e [0..<256 ^ 3] arr_lab all_lab"

text \<open>
  \<open>__create_lab_array\<close>: \<open>rgb_to_lab\<close> applied to the array of all RGB triplets, row
  by row.
\<close>

definition create_lab_array :: "(rgb \<Rightarrow> 'f lab) \<Rightarrow> 'f lab list" where
  "create_lab_array rgb_to_lab = map rgb_to_lab get_all_rgbs"

section \<open>Reading the palette file\<close>

text \<open>
  Strings are byte strings. \<open>str.strip\<close>, \<open>str.split(",")\<close>, \<open>",".join\<close>, \<open>int\<close> and
  the format \<open>{:02x}\<close> of Python, on ASCII text. \<open>str.strip\<close> removes the characters
  for which \<open>str.isspace\<close> holds, the separators \<open>0x1C\<close> to \<open>0x1F\<close> among them;
  \<open>int\<close> skips only blank, tab, line feed, vertical tab, form feed and carriage return
  around the number.
\<close>

definition is_space :: "char \<Rightarrow> bool" where
  "is_space c \<longleftrightarrow> c \<in> set [CHR '' '', CHR 0x09, CHR 0x0A, CHR 0x0B, CHR 0x0C, CHR 0x0D,
                          CHR 0x1C, CHR 0x1D, CHR 0x1E, CHR 0x1F]"

definition is_int_space :: "char \<Rightarrow> bool" where
  "is_int_space c \<longleftrightarrow> c \<in> set [CHR '' '', CHR 0x09, CHR 0x0A, CHR 0x0B, CHR 0x0C, CHR 0x0D]"

definition strip_chars :: "(char \<Rightarrow> bool) \<Rightarrow> string \<Rightarrow> string" where
  "strip_chars P s = rev (dropWhile P (rev (dropWhile P s)))"

definition strip :: "string \<Rightarrow> string" where
  "strip s = strip_chars is_space s"

fun split :: "char \<Rightarrow> string \<Rightarrow> string list" where
  "split d [] = [[]]"
| "split d (c # cs) =
     (if c = d then [] # split d cs
      else (case split d cs of p # ps \<Rightarrow> (c # p) # ps | [] \<Rightarrow> [[c]]))"

fun join :: "char \<Rightarrow> string list \<Rightarrow> string" where
  "join d [] = []"
| "join d [p] = p"
| "join d (p # q # ps) = p @ d # join d (q # ps)"

definition is_digit :: "char \<Rightarrow> bool" where
  "is_digit c \<longleftrightarrow> (48::nat) \<le> of_char c \<and> of_char c \<le> (57::nat)"

definition digit_val :: "char \<Rightarrow> nat" where
  "digit_val c = of_char c - 48"

definition digits_val :: "string \<Rightarrow> nat" where
  "digits_val s = foldl (\<lambda>acc c. acc * 10 + digit_val c) 0 s"

text \<open>The digits of a Python integer literal: single underscores between digits.\<close>

fun digits_ok :: "string \<Rightarrow> bool" where
  "digits_ok [] = False"
| "digits_ok [c] = is_digit c"
| "digits_ok (c # d # cs) =
     (is_digit c \<and> (if d = CHR ''_'' then digits_ok cs else digits_ok (d # cs)))"

text \<open>
  The value of the digits of a literal; a literal of more than 4300 digits is refused
  (the limit of the conversion of strings to integers).
\<close>

definition py_digits :: "string \<Rightarrow> nat option" where
  "py_digits ds =
     (if digits_ok ds \<and> length (filter (\<lambda>x. x \<noteq> CHR ''_'') ds) \<le> 4300
      then Some (digits_val (filter (\<lambda>x. x \<noteq> CHR ''_'') ds)) else None)"

text \<open>\<open>int(s)\<close>: \<open>None\<close> stands for its \<open>ValueError\<close>.\<close>

definition py_int :: "string \<Rightarrow> int option" where
  "py_int s =
     (case strip_chars is_int_space s of
        [] \<Rightarrow> None
      | c # cs \<Rightarrow>
          if c = CHR ''-'' then map_option (\<lambda>n. - int n) (py_digits cs)
          else if c = CHR ''+'' then map_option int (py_digits cs)
          else map_option int (py_digits (c # cs)))"

definition hex_digit :: "nat \<Rightarrow> char" where
  "hex_digit d = (if d < 10 then char_of (48 + d) else char_of (87 + d))"

function hex :: "nat \<Rightarrow> string" where
  "hex n = (if n < 16 then [hex_digit n] else hex (n div 16) @ [hex_digit (n mod 16)])"
  by pat_completeness auto
termination
  by (relation "measure id") auto

text \<open>
  \<open>"{:02x}".format(n)\<close>: lower-case hexadecimal, padded with zeros to two characters,
  the sign counting as one of them.
\<close>

definition format_02x :: "int \<Rightarrow> string" where
  "format_02x n =
     (if n < 0 then CHR ''-'' # hex (nat (- n))
      else if n < 16 then CHR ''0'' # hex (nat n)
      else hex (nat n))"

text \<open>
  One line of \<open>_iterlines\<close>: the line is stripped and split at the commas, the last
  three fields are converted by \<open>int\<close> (all of them, before the format is applied: a
  field that is no integer raises \<open>ValueError\<close>), the hex code is formatted
  (\<open>IndexError\<close> with fewer than three arguments) and appended, and the fields are
  joined again.
\<close>

definition iterline :: "string \<Rightarrow> error + string" where
  "iterline line =
     (let parts = split (CHR '','') (strip line);
          ints = map py_int (drop (length parts - 3) parts)
      in if None \<in> set ints then Inl ValueError
         else if length ints < 3 then Inl IndexError
         else Inr (join (CHR '','') (parts @ [CHR ''#'' # concat (map (\<lambda>n. format_02x (the n)) ints)])))"

text \<open>A record of the structured array \<open>Palette.DTYPE\<close>.\<close>

datatype row = Row (row_group: string) (row_name: string)
  (row_r: uint8) (row_g: uint8) (row_b: uint8) (row_hex: string)

text \<open>
  \<open>np.loadtxt(lines, dtype=DTYPE, delimiter=",")\<close> on one line, after numpy's
  documentation: the text from the comment character \<open>#\<close> on is dropped, a line that
  is empty then is skipped (\<open>None\<close>), the line is split at the delimiter and must have
  one field for each of the six fields of the dtype, a string field is cut to the length
  of its type, and an \<open>u1\<close> field must be a decimal integer that fits a byte, with
  white space around it and a sign \<open>+\<close> before it allowed; anything else raises
  \<open>ValueError\<close>.
\<close>

definition to_u1 :: "string \<Rightarrow> uint8 option" where
  "to_u1 s =
     (let t = strip s;
          ds = (case t of [] \<Rightarrow> [] | c # cs \<Rightarrow> if c = CHR ''+'' then cs else t)
      in if ds \<noteq> [] \<and> list_all is_digit ds \<and> digits_val ds \<le> 255
         then Some (of_nat (digits_val ds)) else None)"

definition loadtxt_row :: "string \<Rightarrow> error + row option" where
  "loadtxt_row line =
     (let l = takeWhile (\<lambda>c. c \<noteq> CHR ''#'') line
      in if l = [] then Inr None
         else (case split (CHR '','') l of
                 [g, n, cr, cg, cb, h] \<Rightarrow>
                   (case (to_u1 cr, to_u1 cg, to_u1 cb) of
                      (Some r', Some g', Some b') \<Rightarrow>
                        Inr (Some (Row (take 20 g) (take 50 n) r' g' b' (take 7 h)))
                    | _ \<Rightarrow> Inl ValueError)
               | _ \<Rightarrow> Inl ValueError))"

text \<open>
  \<open>np.loadtxt(_iterlines(path), ...)\<close>: the lines are pulled from the generator one at
  a time and converted as they come, so the first line that fails decides the error.
\<close>

fun load_rows :: "string list \<Rightarrow> error + row list" where
  "load_rows [] = Inr []"
| "load_rows (line # lines) =
     (case iterline line of
        Inl e \<Rightarrow> Inl e
      | Inr l \<Rightarrow>
          (case loadtxt_row l of
             Inl e \<Rightarrow> Inl e
           | Inr None \<Rightarrow> load_rows lines
           | Inr (Some x) \<Rightarrow>
               (case load_rows lines of Inl e \<Rightarrow> Inl e | Inr xs \<Rightarrow> Inr (x # xs))))"

section \<open>Palette objects and the files\<close>

text \<open>
  A \<open>Palette\<close> object holds the two paths set by \<open>__init__\<close> (\<open>cached_data_path\<close> is
  \<open>data_path\<close> with the suffix \<open>.npy\<close>) and the values that
  \<open>functools.cached_property\<close> has stored in the object for \<open>lookup_table\<close> and
  \<open>data\<close>.
\<close>

type_synonym path = string

record Palette =
  data_path :: path
  cached_data_path :: path
  lookup_table_memo :: "uint16 list option"
  data_memo :: "row list option"

text \<open>
  The state: the text files (a file is the list of its lines), the \<open>.npy\<close> files with
  lookup tables, the file \<open>data/lab.npy\<close>, the Palette objects by reference, and the
  module's dictionary \<open>_PALETTES\<close>. A \<open>.npy\<close> file holds what \<open>np.save\<close> wrote: an
  array of \<open>uint16\<close>; text files and \<open>.npy\<close> files do not share paths.
\<close>

record 'f world =
  text_files :: "path \<rightharpoonup> string list"
  npy_files :: "path \<rightharpoonup> uint16 list"
  lab_npy :: "'f lab list option"
  objs :: "nat \<Rightarrow> Palette"
  PALETTES :: "string \<rightharpoonup> nat"

definition set_obj :: "'f world \<Rightarrow> nat \<Rightarrow> Palette \<Rightarrow> 'f world" where
  "set_obj w p v = w\<lparr>objs := (objs w)(p := v)\<rparr>"

text \<open>
  \<open>Palette.data\<close>, a cached property: the stored value if there is one; otherwise the
  file is opened (\<open>FileNotFoundError\<close> if it is missing) and loaded, and the result is
  stored in the object. Nothing is stored when loading raises.
\<close>

definition data :: "'f world \<Rightarrow> nat \<Rightarrow> (error + row list) \<times> 'f world" where
  "data w p =
     (case data_memo (objs w p) of
        Some d \<Rightarrow> (Inr d, w)
      | None \<Rightarrow>
          (case text_files w (data_path (objs w p)) of
             None \<Rightarrow> (Inl FileNotFoundError, w)
           | Some lines \<Rightarrow>
               (case load_rows lines of
                  Inl e \<Rightarrow> (Inl e, w)
                | Inr d \<Rightarrow> (Inr d, set_obj w p ((objs w p)\<lparr>data_memo := Some d\<rparr>)))))"

text \<open>\<open>Palette.rgbs\<close>: the columns \<open>r\<close>, \<open>g\<close>, \<open>b\<close> of the data, stacked.\<close>

definition rgbs :: "'f world \<Rightarrow> nat \<Rightarrow> (error + rgb list) \<times> 'f world" where
  "rgbs w p =
     (case data w p of
        (Inl e, w') \<Rightarrow> (Inl e, w')
      | (Inr d, w') \<Rightarrow> (Inr (map (\<lambda>x. (row_r x, row_g x, row_b x)) d), w'))"

text \<open>
  \<open>Palette.n_colors\<close>: \<open>self.data.shape[0]\<close>. \<open>np.loadtxt\<close> squeezes the array of a
  single record to dimension zero, whose shape is the empty tuple.
\<close>

definition n_colors :: "'f world \<Rightarrow> nat \<Rightarrow> (error + nat) \<times> 'f world" where
  "n_colors w p =
     (case data w p of
        (Inl e, w') \<Rightarrow> (Inl e, w')
      | (Inr d, w') \<Rightarrow> (if length d = 1 then Inl IndexError else Inr (length d), w'))"

text \<open>
  \<open>Palette.lookup_table\<close>, a cached property: the stored value if there is one;
  otherwise the file at \<open>cached_data_path\<close> is loaded and stored in the object, and
  \<open>FileNotFoundError\<close> is raised if it does not exist.
\<close>

definition lookup_table :: "'f world \<Rightarrow> nat \<Rightarrow> (error + uint16 list) \<times> 'f world" where
  "lookup_table w p =
     (case lookup_table_memo (objs w p) of
        Some t \<Rightarrow> (Inr t, w)
      | None \<Rightarrow>
          (case npy_files w (cached_data_path (objs w p)) of
             Some t \<Rightarrow> (Inr t, set_obj w p ((objs w p)\<lparr>lookup_table_memo := Some t\<rparr>))
           | None \<Rightarrow> (Inl FileNotFoundError, w)))"

text \<open>
  \<open>Palette.clear_cache\<close>: \<open>del self.lookup_table\<close> removes the stored value and
  raises \<open>AttributeError\<close> if there is none.
\<close>

definition clear_cache :: "'f world \<Rightarrow> nat \<Rightarrow> (error + unit) \<times> 'f world" where
  "clear_cache w p =
     (case lookup_table_memo (objs w p) of
        None \<Rightarrow> (Inl AttributeError, w)
      | Some t \<Rightarrow> (Inr (), set_obj w p ((objs w p)\<lparr>lookup_table_memo := None\<rparr>)))"

section \<open>Quantization\<close>

text \<open>
  An array of any rank: \<open>Elem\<close> is an array of rank zero (a scalar), \<open>Arr\<close> an array
  whose first axis lists arrays of one rank less. An image with trailing dimension 3 is
  an array of RGB triplets: a single triplet is \<open>Elem (r, g, b)\<close>, an image of shape
  \<open>(H, W, 3)\<close> is an \<open>Arr\<close> of \<open>H\<close> rows, each an \<open>Arr\<close> of \<open>W\<close> triplets.
\<close>

datatype 'a ndarray = Elem 'a | Arr "'a ndarray list"

fun shape :: "'a ndarray \<Rightarrow> nat list" where
  "shape (Elem x) = []"
| "shape (Arr xs) = length xs # (case xs of [] \<Rightarrow> [] | x # _ \<Rightarrow> shape x)"

text \<open>The shape of an array of triplets, the trailing dimension included.\<close>

definition shape3 :: "('a \<times> 'a \<times> 'a) ndarray \<Rightarrow> nat list" where
  "shape3 a = shape a @ [3]"

fun ravel_nd :: "'a ndarray \<Rightarrow> 'a list" where
  "ravel_nd (Elem x) = [x]"
| "ravel_nd (Arr xs) = concat (map ravel_nd xs)"

text \<open>
  \<open>a[idx]\<close> with an array of integers as index: the result has the shape of the index
  and holds \<open>a[i]\<close> in the place of \<open>i\<close>; \<open>IndexError\<close> if one of the indices is out
  of bounds.
\<close>

fun all_nd :: "('a \<Rightarrow> bool) \<Rightarrow> 'a ndarray \<Rightarrow> bool" where
  "all_nd P (Elem x) = P x"
| "all_nd P (Arr xs) = list_all (all_nd P) xs"

definition fancy_index :: "'a list \<Rightarrow> nat ndarray \<Rightarrow> error + 'a ndarray" where
  "fancy_index a idx =
     (if all_nd (\<lambda>i. i < length a) idx then Inr (map_ndarray (\<lambda>i. a ! i) idx)
      else Inl IndexError)"

text \<open>
  Modelled from the spec: \<open>rgb_to_ind\<close> of \<open>jcc.convert\<close>, which is not among the
  sources at hand. For each pixel it computes the linear index \<open>r * 65536 + g * 256 + b\<close>,
  one index for each triplet of the image.
\<close>

definition rgb_to_ind_scalar :: "rgb \<Rightarrow> nat" where
  "rgb_to_ind_scalar c = (case c of (r, g, b) \<Rightarrow> unat r * 65536 + unat g * 256 + unat b)"

definition rgb_to_ind :: "rgb ndarray \<Rightarrow> nat ndarray" where
  "rgb_to_ind arr = map_ndarray rgb_to_ind_scalar arr"

text \<open>\<open>Palette.convert_to_indices\<close>: \<open>self.lookup_table[rgb_to_ind(arr)]\<close>.\<close>

definition convert_to_indices ::
  "'f world \<Rightarrow> nat \<Rightarrow> rgb ndarray \<Rightarrow> (error + uint16 ndarray) \<times> 'f world" where
  "convert_to_indices w p arr =
     (case lookup_table w p of
        (Inl e, w') \<Rightarrow> (Inl e, w')
      | (Inr t, w') \<Rightarrow> (fancy_index t (rgb_to_ind arr), w'))"

text \<open>
  \<open>Palette.convert_to_rgbs\<close>: \<open>self.rgbs[self.convert_to_indices(arr)]\<close>; the array
  that is indexed is evaluated before the index.
\<close>

definition convert_to_rgbs ::
  "'f world \<Rightarrow> nat \<Rightarrow> rgb ndarray \<Rightarrow> (error + rgb ndarray) \<times> 'f world" where
  "convert_to_rgbs w p arr =
     (case rgbs w p of
        (Inl e, w1) \<Rightarrow> (Inl e, w1)
      | (Inr cs, w1) \<Rightarrow>
          (case convert_to_indices w1 p arr of
             (Inl e, w2) \<Rightarrow> (Inl e, w2)
           | (Inr idx, w2) \<Rightarrow> (fancy_index cs (map_ndarray unat idx), w2)))"

text \<open>
  \<open>_load_lab_array\<close>: the array of \<open>data/lab.npy\<close> if the file exists; otherwise the
  array is computed, saved and returned.
\<close>

definition load_lab_array :: "(rgb \<Rightarrow> 'f lab) \<Rightarrow> 'f world \<Rightarrow> 'f lab list \<times> 'f world" where
  "load_lab_array rgb_to_lab w =
     (case lab_npy w of
        None \<Rightarrow> (let lab_array = create_lab_array rgb_to_lab
                 in (lab_array, w\<lparr>lab_npy := Some lab_array\<rparr>))
      | Some a \<Rightarrow> (a, w))"

text \<open>
  \<open>Palette.build\<close>: the table is computed from the LAB values of the palette's colours
  and saved at \<open>cached_data_path\<close>. The value stored in the object for \<open>lookup_table\<close>
  is left as it is.
\<close>

definition build ::
  "('f \<Rightarrow> 'f \<Rightarrow> 'f \<Rightarrow> 'f \<Rightarrow> 'f \<Rightarrow> 'f \<Rightarrow> 'd::linorder) \<Rightarrow> (rgb \<Rightarrow> 'f lab) \<Rightarrow> 'f world \<Rightarrow> nat
     \<Rightarrow> (error + unit) \<times> 'f world" where
  "build delta_e rgb_to_lab w p =
     (case rgbs w p of
        (Inl e, w1) \<Rightarrow> (Inl e, w1)
      | (Inr cs, w1) \<Rightarrow>
          (case load_lab_array rgb_to_lab w1 of
             (all_lab, w2) \<Rightarrow>
               (case create_lookup_table delta_e (map rgb_to_lab cs) all_lab of
                  Inl e \<Rightarrow> (Inl e, w2)
                | Inr arr \<Rightarrow>
                    (Inr (), w2\<lparr>npy_files := (npy_files w2)(cached_data_path (objs w2 p) \<mapsto> arr)\<rparr>))))"

section \<open>The functions of the package\<close>

text \<open>The argument \<open>palette\<close>: the name of a palette or a Palette object.\<close>

datatype palette_arg = Name string | Obj nat

text \<open>
  \<open>_get_palette\<close>: a Palette object is returned as it is; a name is looked up in
  \<open>_PALETTES\<close>, and the \<open>KeyError\<close> of a missing name is turned into
  \<open>NotImplementedError\<close> with the message \<open>Unsupported palette: <name>\<close>.
\<close>

definition get_palette :: "'f world \<Rightarrow> palette_arg \<Rightarrow> error + nat" where
  "get_palette w palette =
     (case palette of
        Obj p \<Rightarrow> Inr p
      | Name n \<Rightarrow>
          (case PALETTES w n of
             Some p \<Rightarrow> Inr p
           | None \<Rightarrow> Inl (NotImplementedError (''Unsupported palette: '' @ n))))"

definition quantize_with_palette ::
  "'f world \<Rightarrow> rgb ndarray \<Rightarrow> palette_arg \<Rightarrow> (error + rgb ndarray) \<times> 'f world" where
  "quantize_with_palette w img palette =
     (case get_palette w palette of
        Inl e \<Rightarrow> (Inl e, w)
      | Inr p \<Rightarrow> convert_to_rgbs w p img)"

text \<open>
  \<open>np.bincount(x, minlength=n)\<close>: the number of occurrences of each value from 0 to the
  largest value of \<open>x\<close>, in at least \<open>n\<close> bins.
\<close>

definition bincount :: "nat list \<Rightarrow> nat \<Rightarrow> nat list" where
  "bincount x minlength =
     map (\<lambda>v. count_list x v) [0..<max minlength (if x = [] then 0 else Suc (fold max x 0))]"

text \<open>
  \<open>color_histogram\<close>: the records of the palette with the column \<open>count\<close>. The
  assignment of \<open>counts\<close> to the column raises \<open>ValueError\<close> when the lengths differ
  and \<open>counts\<close> has more than one element.
\<close>

definition color_histogram ::
  "'f world \<Rightarrow> rgb ndarray \<Rightarrow> palette_arg \<Rightarrow> (error + (row \<times> nat) list) \<times> 'f world" where
  "color_histogram w img palette =
     (case get_palette w palette of
        Inl e \<Rightarrow> (Inl e, w)
      | Inr pal \<Rightarrow>
          (case convert_to_indices w pal img of
             (Inl e, w1) \<Rightarrow> (Inl e, w1)
           | (Inr indices, w1) \<Rightarrow>
               (case n_colors w1 pal of
                  (Inl e, w2) \<Rightarrow> (Inl e, w2)
                | (Inr n, w2) \<Rightarrow>
                    (let counts = bincount (map unat (ravel_nd indices)) n
                     in case data w2 pal of
                          (Inl e, w3) \<Rightarrow> (Inl e, w3)
                        | (Inr palette_data, w3) \<Rightarrow>
                            if length counts = length palette_data
                            then (Inr (zip palette_data counts), w3)
                            else if length counts = 1
                            then (Inr (map (\<lambda>x. (x, counts ! 0)) palette_data), w3)
                            else (Inl ValueError, w3)))))"

section \<open>Entropy\<close>

text \<open>
  Floating-point numbers are idealised as real numbers. \<open>math.log2\<close> raises
  \<open>ValueError\<close> outside its domain; \<open>math.copysign(x, y)\<close> is the magnitude of \<open>x\<close>
  with the sign of \<open>y\<close>.
\<close>

definition ETS :: real where
  "ETS = 1 / 10 ^ 15"

definition log2 :: "real \<Rightarrow> error + real" where
  "log2 x = (if x \<le> 0 then Inl ValueError else Inr (log 2 x))"

definition copysign :: "real \<Rightarrow> real \<Rightarrow> real" where
  "copysign x y = (if y < 0 then - \<bar>x\<bar> else \<bar>x\<bar>)"

text \<open>The terms \<open>p * log2(p + _ETS)\<close> of the sum, in the order of \<open>probs\<close>.\<close>

fun entropy_terms :: "real list \<Rightarrow> error + real list" where
  "entropy_terms [] = Inr []"
| "entropy_terms (p # ps) =
     (case log2 (p + ETS) of
        Inl e \<Rightarrow> Inl e
      | Inr l \<Rightarrow> (case entropy_terms ps of Inl e \<Rightarrow> Inl e | Inr ts \<Rightarrow> Inr (p * l # ts)))"

text \<open>
  \<open>color_entropy\<close> on the records \<open>(color, count)\<close> of a grouped histogram
  (the argument \<open>data\<close> of the source). With a
  total count of zero the quotients are not numbers; the model gives no result then
  (\<open>None\<close>).
\<close>

definition color_entropy :: "(string \<times> int) list \<Rightarrow> (error + real) option" where
  "color_entropy hist =
     (let total_count = sum_list (map snd hist);
          is_grayscale = (\<lambda>x. fst x \<in> set [''black'', ''white'', ''gray'']);
          probs = real_of_int (sum_list (map snd (filter is_grayscale hist))) / real_of_int total_count
                  # map (\<lambda>x. real_of_int (snd x) / real_of_int total_count)
                        (filter (\<lambda>x. \<not> is_grayscale x) hist)
      in if total_count = 0 then None
         else (case entropy_terms probs of
                 Inl e \<Rightarrow> Some (Inl e)
               | Inr ts \<Rightarrow>
                   (let value = - sum_list ts / real (length probs)
                    in Some (Inr (value * copysign 1 value)))))"

section \<open>Concrete data\<close>

text \<open>
  Stand-ins for the two functions that are parameters of the builder, for use on
  concrete data: the channels of a colour as integers, and the sum of the absolute
  differences of the components.
\<close>

definition int_lab :: "rgb \<Rightarrow> int lab" where
  "int_lab c = (case c of (r, g, b) \<Rightarrow> (uint r, uint g, uint b))"

definition city_block :: "int \<Rightarrow> int \<Rightarrow> int \<Rightarrow> int \<Rightarrow> int \<Rightarrow> int \<Rightarrow> int" where
  "city_block l1 a1 b1 l2 a2 b2 = \<bar>l1 - l2\<bar> + \<bar>a1 - a2\<bar> + \<bar>b1 - b2\<bar>"

text \<open>
  A state with two Palette objects: object 0 is \<open>x11\<close>, registered under its name,
  and object 1 is a palette of pure red and pure blue whose file has two lines. No
  lookup table has been built and nothing has been read yet.
\<close>

definition x11 :: Palette where
  "x11 = \<lparr>data_path = ''data/x11.csv'', cached_data_path = ''data/x11.npy'',
          lookup_table_memo = None, data_memo = None\<rparr>"

definition red_blue :: Palette where
  "red_blue = \<lparr>data_path = ''red_blue.csv'', cached_data_path = ''red_blue.npy'',
               lookup_table_memo = None, data_memo = None\<rparr>"

definition red_blue_world :: "int world" where
  "red_blue_world =
     \<lparr>text_files = [''red_blue.csv'' \<mapsto> [''red,red,255,0,0'', ''blue,blue,0,0,255'']],
      npy_files = Map.empty,
      lab_npy = None,
      objs = (\<lambda>p. if p = 0 then x11 else red_blue),
      PALETTES = [''x11'' \<mapsto> 0]\<rparr>"

text \<open>
  A palette file of \<open>n\<close> lines for red followed by one line for blue, and a state
  whose only Palette object reads such a file of 65537 lines. The class does not bound
  the number of lines.
\<close>

definition red_then_blue :: "nat \<Rightarrow> string list" where
  "red_then_blue n = replicate n ''red,red,255,0,0'' @ [''blue,blue,0,0,255'']"

definition wide :: Palette where
  "wide = \<lparr>data_path = ''wide.csv'', cached_data_path = ''wide.npy'',
           lookup_table_memo = None, data_memo = None\<rparr>"

definition wide_world :: "int world" where
  "wide_world =
     \<lparr>text_files = [''wide.csv'' \<mapsto> red_then_blue 65536],
      npy_files = Map.empty,
      lab_npy = None,
      objs = (\<lambda>p. wide),
      PALETTES = Map.empty\<rparr>"

section \<open>Properties of the array operations and of the builder\<close>

lemma length_concat_uniform:
  "\<forall>r\<in>set xss. length r = k \<Longrightarrow> length (concat xss) = length xss * k"
  by (induction xss) simp_all

lemma nth_concat_uniform:
  "\<forall>r\<in>set xss. length r = k \<Longrightarrow> i < length xss * k \<Longrightarrow>
     concat xss ! i = xss ! (i div k) ! (i mod k)"
proof (induction xss arbitrary: i)
  case Nil
  then show ?case by simp
next
  case (Cons r xss)
  have k: "length r = k" using Cons.prems(1) by simp
  show ?case
  proof (cases "i < k")
    case True
    then show ?thesis using k by (simp add: nth_append)
  next
    case False
    then have ge: "k \<le> i" by simp
    have lt: "i - k < length xss * k" using Cons.prems(2) ge by simp
    have kpos: "0 < k" using Cons.prems(2) by (cases k) simp_all
    have d: "i div k = Suc ((i - k) div k)" using ge kpos
      by (simp add: le_div_geq)
    have m: "i mod k = (i - k) mod k" using ge by (simp add: le_mod_geq)
    have "concat (r # xss) ! i = concat xss ! (i - k)"
      using False k by (simp add: nth_append)
    also have "\<dots> = xss ! ((i - k) div k) ! ((i - k) mod k)"
      using Cons.IH [of "i - k"] Cons.prems(1) lt by simp
    finally show ?thesis using d m by simp
  qed
qed

lemma length_repeat: "length (repeat xs k) = length xs * k"
  unfolding repeat_def by (simp add: length_concat_uniform [where k = k])

lemma nth_repeat:
  assumes "i < length xs * k"
  shows "repeat xs k ! i = xs ! (i div k)"
proof -
  have kpos: "0 < k" using assms by (cases k) simp_all
  have d: "i div k < length xs" using assms kpos
    by (simp add: less_mult_imp_div_less)
  have "repeat xs k ! i = map (replicate k) xs ! (i div k) ! (i mod k)"
    unfolding repeat_def using assms
    by (intro nth_concat_uniform) simp_all
  then show ?thesis using d kpos by simp
qed

lemma length_reshape: "length (reshape xs k) = length xs div k"
  by (simp add: reshape_def)

lemma nth_reshape:
  "p < length xs div k \<Longrightarrow> q < k \<Longrightarrow> reshape xs k ! p ! q = xs ! (p * k + q)"
  by (simp add: reshape_def)

lemma reshape_rows: "\<forall>r\<in>set (reshape xs k). length r = k"
  by (auto simp: reshape_def)

lemma T_rows:
  "\<forall>r\<in>set (T m). length r = length m"
  by (auto simp: T_def split: list.splits)

lemma length_T:
  "m \<noteq> [] \<Longrightarrow> length (T m) = length (hd m)"
  by (auto simp: T_def split: list.splits)

lemma nth_T:
  "m \<noteq> [] \<Longrightarrow> q < length (hd m) \<Longrightarrow> p < length m \<Longrightarrow> T m ! q ! p = m ! p ! q"
  by (cases m; cases p) (simp_all add: T_def)

lemma ravel_T_reshape:
  assumes k: "0 < k" and P: "0 < length xs div k" and i: "i < k * (length xs div k)"
  shows "ravel (T (reshape xs k)) ! i
           = xs ! ((i mod (length xs div k)) * k + i div (length xs div k))"
    and "length (ravel (T (reshape xs k))) = k * (length xs div k)"
proof -
  let ?P = "length xs div k"
  let ?m = "reshape xs k"
  have ne: "?m \<noteq> []" using P by (auto simp: reshape_def)
  have hd: "length (hd ?m) = k" using ne reshape_rows [of xs k] by (cases ?m) auto
  have lT: "length (T ?m) = k" using length_T [OF ne] hd by simp
  have rT: "\<forall>r\<in>set (T ?m). length r = ?P" using T_rows [of ?m] by (simp add: length_reshape)
  show "length (ravel (T ?m)) = k * ?P"
    unfolding ravel_def using length_concat_uniform [OF rT] lT by simp
  have q: "i div ?P < k" using i P by (simp add: less_mult_imp_div_less mult.commute)
  have p: "i mod ?P < ?P" using P by simp
  have "ravel (T ?m) ! i = T ?m ! (i div ?P) ! (i mod ?P)"
    unfolding ravel_def using i lT by (intro nth_concat_uniform [OF rT]) simp
  also have "\<dots> = ?m ! (i mod ?P) ! (i div ?P)"
    using nth_T [OF ne, of "i div ?P" "i mod ?P"] q p hd by (simp add: length_reshape)
  also have "\<dots> = xs ! ((i mod ?P) * k + i div ?P)"
    using nth_reshape [OF p q] .
  finally show "ravel (T ?m) ! i = xs ! ((i mod ?P) * k + i div ?P)" .
qed

lemma length_arange: "length (arange n) = n"
  by (simp add: arange_def)

lemma nth_arange: "j < n \<Longrightarrow> arange n ! j = of_nat j"
  by (simp add: arange_def)

lemma get_all_rgbs_cols:
  fixes A :: "uint8 list"
  defines "A \<equiv> repeat (arange 256) (256 ^ 2)"
  shows lenA: "length A = 16777216"
    and nthA: "j < 16777216 \<Longrightarrow> A ! j = of_nat (j div 65536)"
proof -
  show "length A = 16777216"
    unfolding A_def by (simp add: length_repeat length_arange)
  assume j: "j < 16777216"
  have "j < length (arange 256) * 256 ^ 2" using j by (simp add: length_arange)
  then have "A ! j = arange 256 ! (j div 256 ^ 2)"
    unfolding A_def by (rule nth_repeat)
  moreover have "j div 256 ^ 2 < 256" using j by (simp add: less_mult_imp_div_less)
  ultimately show "A ! j = of_nat (j div 65536)"
    by (simp add: nth_arange)
qed

lemma get_all_rgbs_length: "length get_all_rgbs = 16777216"
proof -
  let ?A = "repeat (arange 256) (256 ^ 2) :: uint8 list"
  have l0: "length ?A = 16777216" by (rule lenA)
  have l1: "length (ravel (T (reshape ?A 256))) = 16777216"
    using ravel_T_reshape(2) [of 256 ?A 0] l0 by simp
  have l2: "length (ravel (T (reshape ?A (256 ^ 2)))) = 16777216"
    using ravel_T_reshape(2) [of "256 ^ 2" ?A 0] l0 by simp
  show ?thesis
    unfolding get_all_rgbs_def Let_def using l0 l1 l2 by simp
qed

lemma get_all_rgbs_nth:
  assumes i: "i < 16777216"
  shows "get_all_rgbs ! i = (of_nat (i div 65536), of_nat (i mod 65536 div 256), of_nat (i mod 256))"
proof -
  let ?A = "repeat (arange 256) (256 ^ 2) :: uint8 list"
  have l0: "length ?A = 16777216" by (rule lenA)
  have l1: "length (ravel (T (reshape ?A 256))) = 16777216"
    using ravel_T_reshape(2) [of 256 ?A 0] l0 by simp
  have l2: "length (ravel (T (reshape ?A (256 ^ 2)))) = 16777216"
    using ravel_T_reshape(2) [of "256 ^ 2" ?A 0] l0 by simp
  have c0: "?A ! i = of_nat (i div 65536)" using i by (rule nthA)
  have j1: "i mod 65536 * 256 + i div 65536 < 16777216"
  proof -
    have "i mod 65536 < 65536" by simp
    moreover have "i div 65536 < 256" using i by (simp add: less_mult_imp_div_less)
    ultimately show ?thesis by linarith
  qed
  have d1: "(i mod 65536 * 256 + i div 65536) div 65536 = i mod 65536 div 256"
  proof -
    have c: "i div 65536 < 256" using i by (simp add: less_mult_imp_div_less)
    have "(i mod 65536 * 256 + i div 65536) div (256 * 256)
            = (i mod 65536 * 256 + i div 65536) div 256 div 256"
      by (rule div_mult2_eq)
    also have "(i mod 65536 * 256 + i div 65536) div 256 = i mod 65536"
      using c by simp
    finally show ?thesis by simp
  qed
  have c1: "ravel (T (reshape ?A 256)) ! i = of_nat (i mod 65536 div 256)"
  proof -
    have "ravel (T (reshape ?A 256)) ! i = ?A ! (i mod 65536 * 256 + i div 65536)"
      using ravel_T_reshape(1) [of 256 ?A i] l0 i by simp
    then show ?thesis using nthA [OF j1] d1 by simp
  qed
  have j2: "i mod 256 * 65536 + i div 256 < 16777216"
  proof -
    have "i mod 256 < 256" by simp
    moreover have "i div 256 < 65536" using i by (simp add: less_mult_imp_div_less)
    ultimately show ?thesis by linarith
  qed
  have d2: "(i mod 256 * 65536 + i div 256) div 65536 = i mod 256"
  proof -
    have c: "i div 256 < 65536" using i by (simp add: less_mult_imp_div_less)
    then show ?thesis by simp
  qed
  have c2: "ravel (T (reshape ?A (256 ^ 2))) ! i = of_nat (i mod 256)"
  proof -
    have "ravel (T (reshape ?A (256 ^ 2))) ! i = ?A ! (i mod 256 * 65536 + i div 256)"
      using ravel_T_reshape(1) [of "256 ^ 2" ?A i] l0 i by simp
    then show ?thesis using nthA [OF j2] d2 by simp
  qed
  show ?thesis
    unfolding get_all_rgbs_def Let_def using i l0 l1 l2 c0 c1 c2 by simp
qed

lemma argmin_scan_spec:
  assumes "length pre = i" "best < i" "pre ! best = bv"
    and "\<forall>k<i. bv \<le> pre ! k" and "\<forall>k<best. bv < pre ! k"
  shows "argmin_scan xs i best bv < i + length xs
       \<and> (\<forall>k < i + length xs. (pre @ xs) ! argmin_scan xs i best bv \<le> (pre @ xs) ! k)
       \<and> (\<forall>k < argmin_scan xs i best bv. (pre @ xs) ! argmin_scan xs i best bv < (pre @ xs) ! k)"
  using assms
proof (induction xs arbitrary: pre i best bv)
  case Nil
  then show ?case by simp
next
  case (Cons x xs)
  let ?pre = "pre @ [x]"
  have len: "length ?pre = Suc i" using Cons.prems(1) by simp
  show ?case
  proof (cases "x < bv")
    case True
    have a: "i < Suc i" by simp
    have b: "?pre ! i = x" using Cons.prems(1) by (simp add: nth_append)
    have c: "\<forall>k<Suc i. x \<le> ?pre ! k"
    proof (intro allI impI)
      fix k assume "k < Suc i"
      then show "x \<le> ?pre ! k"
        using Cons.prems(1,4) True by (cases "k = i") (auto simp: nth_append less_Suc_eq)
    qed
    have d: "\<forall>k<i. x < ?pre ! k"
      using Cons.prems(1,4) True by (auto simp: nth_append)
    from Cons.IH [OF len a b c d] True show ?thesis by simp
  next
    case False
    have a: "best < Suc i" using Cons.prems(2) by simp
    have b: "?pre ! best = bv" using Cons.prems(1,2,3) by (simp add: nth_append)
    have c: "\<forall>k<Suc i. bv \<le> ?pre ! k"
    proof (intro allI impI)
      fix k assume "k < Suc i"
      then show "bv \<le> ?pre ! k"
        using Cons.prems(1,4) False by (cases "k = i") (auto simp: nth_append less_Suc_eq)
    qed
    have d: "\<forall>k<best. bv < ?pre ! k"
      using Cons.prems(1,2,5) by (auto simp: nth_append)
    from Cons.IH [OF len a b c d] False show ?thesis by simp
  qed
qed

lemma argmin_spec:
  assumes "xs \<noteq> []"
  obtains j where "argmin xs = Inr j" "j < length xs"
    "\<forall>k<length xs. xs ! j \<le> xs ! k" "\<forall>k<j. xs ! j < xs ! k"
proof -
  from assms obtain x ys where xs: "xs = x # ys" by (cases xs) auto
  have "argmin_scan ys 1 0 x < 1 + length ys
       \<and> (\<forall>k < 1 + length ys. ([x] @ ys) ! argmin_scan ys 1 0 x \<le> ([x] @ ys) ! k)
       \<and> (\<forall>k < argmin_scan ys 1 0 x. ([x] @ ys) ! argmin_scan ys 1 0 x < ([x] @ ys) ! k)"
    by (rule argmin_scan_spec) simp_all
  then show thesis
    using that [of "argmin_scan ys 1 0 x"] xs by (simp add: argmin_def)
qed

lemma argmin_empty: "argmin [] = Inl ValueError"
  by (simp add: argmin_def)

lemma fold_upd_length:
  "length (fold (\<lambda>i s. s[i := g i]) sched s) = length s"
  by (induction sched arbitrary: s) simp_all

lemma fold_upd_nth_notin:
  "i \<notin> set sched \<Longrightarrow> fold (\<lambda>i s. s[i := g i]) sched s ! i = s ! i"
  by (induction sched arbitrary: s) auto

lemma fold_upd_nth_in:
  "i \<in> set sched \<Longrightarrow> i < length s \<Longrightarrow> fold (\<lambda>i s. s[i := g i]) sched s ! i = g i"
proof (induction sched arbitrary: s)
  case Nil
  then show ?case by simp
next
  case (Cons a sched)
  show ?case
  proof (cases "i \<in> set sched")
    case True
    then show ?thesis using Cons.IH [of "s[a := g a]"] Cons.prems(2) by simp
  next
    case False
    then have "a = i" using Cons.prems(1) by simp
    then show ?thesis using False Cons.prems(2) by (simp add: fold_upd_nth_notin)
  qed
qed

lemma prange_loop_updates:
  "(\<And>i s. body i s = Inr (s[i := g i])) \<Longrightarrow>
     prange_loop body sched s = Inr (fold (\<lambda>i s. s[i := g i]) sched s)"
  by (induction sched arbitrary: s) simp_all

lemma prange_loop_same:
  "(\<And>i s. body i s = Inr s) \<Longrightarrow> prange_loop body sched s = Inr s"
  by (induction sched arbitrary: s) simp_all

lemma lookup_step_empty: "lookup_step delta_e [] all_lab i s = Inr s"
  by (simp add: lookup_step_def deltaes_def argmin_def)

lemma sched_table_empty_palette:
  "create_lookup_table_sched delta_e sched [] all_lab = Inr (replicate (256 ^ 3) 0)"
  unfolding create_lookup_table_sched_def
  by (rule prange_loop_same) (rule lookup_step_empty)

lemma lookup_step_nonempty:
  assumes "arr_lab \<noteq> []"
  shows "lookup_step delta_e arr_lab all_lab i out
           = Inr (out[i := of_nat (projr (argmin (deltaes delta_e arr_lab (all_lab ! i))))])"
proof -
  have "deltaes delta_e arr_lab (all_lab ! i) \<noteq> []" using assms by (simp add: deltaes_def)
  then obtain j where "argmin (deltaes delta_e arr_lab (all_lab ! i)) = Inr j"
    by (rule argmin_spec)
  then show ?thesis by (simp add: lookup_step_def)
qed

lemma sched_table_gen:
  assumes ne: "arr_lab \<noteq> []" and sched: "\<forall>i. i \<in> set sched \<longleftrightarrow> i < n"
  shows "\<exists>t. prange_loop (lookup_step delta_e arr_lab all_lab) sched (replicate n 0) = Inr t
           \<and> length t = n
           \<and> (\<forall>i<n. t ! i = of_nat (projr (argmin (deltaes delta_e arr_lab (all_lab ! i)))))"
proof -
  define g :: "nat \<Rightarrow> uint16"
    where "g = (\<lambda>i. of_nat (projr (argmin (deltaes delta_e arr_lab (all_lab ! i)))))"
  define t where "t = fold (\<lambda>i s. s[i := g i]) sched (replicate n 0)"
  have step: "\<And>i s. lookup_step delta_e arr_lab all_lab i s = Inr (s[i := g i])"
    unfolding g_def by (rule lookup_step_nonempty [OF ne])
  have 1: "prange_loop (lookup_step delta_e arr_lab all_lab) sched (replicate n 0) = Inr t"
    unfolding t_def using step by (rule prange_loop_updates)
  have 2: "length t = n" unfolding t_def by (simp add: fold_upd_length)
  have 3: "t ! i = g i" if "i < n" for i
  proof -
    have "i \<in> set sched" using that sched by simp
    moreover have "i < length (replicate n (0::uint16))" using that by simp
    ultimately show ?thesis unfolding t_def by (rule fold_upd_nth_in)
  qed
  from 1 2 3 show ?thesis unfolding g_def by blast
qed

lemma sched_table:
  assumes ne: "arr_lab \<noteq> []" and sched: "\<forall>i. i \<in> set sched \<longleftrightarrow> i < 256 ^ 3"
  shows "\<exists>t. create_lookup_table_sched delta_e sched arr_lab all_lab = Inr t
           \<and> length t = 256 ^ 3
           \<and> (\<forall>i<256 ^ 3. t ! i = of_nat (projr (argmin (deltaes delta_e arr_lab (all_lab ! i)))))"
  unfolding create_lookup_table_sched_def using ne sched by (rule sched_table_gen)

lemma seq_schedule_gen: "\<forall>i. i \<in> set [0..<n] \<longleftrightarrow> i < n"
  by simp

lemma seq_schedule: "\<forall>i. i \<in> set [0..<256 ^ 3] \<longleftrightarrow> i < 256 ^ 3"
  by (rule seq_schedule_gen)

lemma seq_table:
  assumes ne: "arr_lab \<noteq> []"
  shows "\<exists>t. create_lookup_table delta_e arr_lab all_lab = Inr t
           \<and> length t = 256 ^ 3
           \<and> (\<forall>i<256 ^ 3. t ! i = of_nat (projr (argmin (deltaes delta_e arr_lab (all_lab ! i)))))"
  unfolding create_lookup_table_def
  by (rule sched_table [OF ne]) (rule seq_schedule)

lemma empty_table:
  "create_lookup_table delta_e [] all_lab = Inr (replicate (256 ^ 3) 0)"
  unfolding create_lookup_table_def by (rule sched_table_empty_palette)

lemma deltaes_nth:
  "k < length arr_lab \<Longrightarrow> deltaes delta_e arr_lab lab1 ! k = lab_distance delta_e lab1 (arr_lab ! k)"
  by (simp add: deltaes_def)

lemma length_deltaes: "length (deltaes delta_e arr_lab lab1) = length arr_lab"
  by (simp add: deltaes_def)

lemma nearest_spec:
  assumes ne: "arr_lab \<noteq> []"
  obtains j where "argmin (deltaes delta_e arr_lab lab1) = Inr j" "j < length arr_lab"
    "\<forall>k<length arr_lab. lab_distance delta_e lab1 (arr_lab ! j) \<le> lab_distance delta_e lab1 (arr_lab ! k)"
    "\<forall>k<j. lab_distance delta_e lab1 (arr_lab ! j) < lab_distance delta_e lab1 (arr_lab ! k)"
proof -
  have "deltaes delta_e arr_lab lab1 \<noteq> []" using ne by (simp add: deltaes_def)
  then obtain j where j: "argmin (deltaes delta_e arr_lab lab1) = Inr j"
      "j < length (deltaes delta_e arr_lab lab1)"
      "\<forall>k<length (deltaes delta_e arr_lab lab1).
          deltaes delta_e arr_lab lab1 ! j \<le> deltaes delta_e arr_lab lab1 ! k"
      "\<forall>k<j. deltaes delta_e arr_lab lab1 ! j < deltaes delta_e arr_lab lab1 ! k"
    by (rule argmin_spec)
  have jl: "j < length arr_lab" using j(2) by (simp add: length_deltaes)
  show thesis
  proof (rule that [OF j(1) jl])
    show "\<forall>k<length arr_lab. lab_distance delta_e lab1 (arr_lab ! j) \<le> lab_distance delta_e lab1 (arr_lab ! k)"
      using j(3) jl by (simp add: length_deltaes deltaes_nth)
    show "\<forall>k<j. lab_distance delta_e lab1 (arr_lab ! j) < lab_distance delta_e lab1 (arr_lab ! k)"
      using j(4) jl by (simp add: deltaes_nth)
  qed
qed

lemma table_entries:
  assumes ne: "arr_lab \<noteq> []"
  shows "\<exists>t. create_lookup_table delta_e arr_lab all_lab = Inr t \<and> length t = 256 ^ 3
     \<and> (\<forall>i<256 ^ 3. \<exists>j. t ! i = of_nat j \<and> j < length arr_lab
           \<and> (\<forall>k<length arr_lab. lab_distance delta_e (all_lab ! i) (arr_lab ! j)
                                   \<le> lab_distance delta_e (all_lab ! i) (arr_lab ! k))
           \<and> (\<forall>k<j. lab_distance delta_e (all_lab ! i) (arr_lab ! j)
                      < lab_distance delta_e (all_lab ! i) (arr_lab ! k)))"
proof -
  from seq_table [OF ne] obtain t where t: "create_lookup_table delta_e arr_lab all_lab = Inr t"
      "length t = 256 ^ 3"
      "\<forall>i<256 ^ 3. t ! i = of_nat (projr (argmin (deltaes delta_e arr_lab (all_lab ! i))))"
    by blast
  have "\<exists>j. t ! i = of_nat j \<and> j < length arr_lab
           \<and> (\<forall>k<length arr_lab. lab_distance delta_e (all_lab ! i) (arr_lab ! j)
                                   \<le> lab_distance delta_e (all_lab ! i) (arr_lab ! k))
           \<and> (\<forall>k<j. lab_distance delta_e (all_lab ! i) (arr_lab ! j)
                      < lab_distance delta_e (all_lab ! i) (arr_lab ! k))"
    if i: "i < 256 ^ 3" for i
  proof -
    obtain j where j: "argmin (deltaes delta_e arr_lab (all_lab ! i)) = Inr j" "j < length arr_lab"
      "\<forall>k<length arr_lab. lab_distance delta_e (all_lab ! i) (arr_lab ! j) \<le> lab_distance delta_e (all_lab ! i) (arr_lab ! k)"
      "\<forall>k<j. lab_distance delta_e (all_lab ! i) (arr_lab ! j) < lab_distance delta_e (all_lab ! i) (arr_lab ! k)"
      using ne by (rule nearest_spec)
    have "t ! i = of_nat j" using t(3) i j(1) by simp
    then show ?thesis using j(2,3,4) by blast
  qed
  then show ?thesis using t(1,2) by blast
qed

lemma unat_entry_small:
  "j < 65536 \<Longrightarrow> unat (of_nat j :: uint16) = j"
  by (simp add: unat_of_nat)

lemma unat_entry_le: "unat (of_nat j :: uint16) \<le> j"
  by (simp add: unat_of_nat)

lemma rgb_index:
  fixes r g b :: uint8
  shows "unat r * 65536 + unat g * 256 + unat b < 16777216"
    and "get_all_rgbs ! (unat r * 65536 + unat g * 256 + unat b) = (r, g, b)"
proof -
  have r: "unat r < 256" and g: "unat g < 256" and b: "unat b < 256"
    using unsigned_less [of r, where 'a = nat] unsigned_less [of g, where 'a = nat]
      unsigned_less [of b, where 'a = nat] by simp_all
  let ?i = "unat r * 65536 + unat g * 256 + unat b"
  show i: "?i < 16777216" using r g b by linarith
  have gb: "unat g * 256 + unat b < 65536" using g b by linarith
  have d: "?i div 65536 = unat r" using gb by simp
  have m: "?i mod 65536 = unat g * 256 + unat b"
  proof -
    have "?i = unat r * 65536 + (unat g * 256 + unat b)" by simp
    then show ?thesis using gb by (metis mod_mult_self3 mod_less)
  qed
  have d2: "(unat g * 256 + unat b) div 256 = unat g" using b by simp
  have m2: "?i mod 256 = unat b"
  proof -
    have "?i = (unat r * 256 + unat g) * 256 + unat b" by simp
    then show ?thesis using b by (metis mod_mult_self3 mod_less)
  qed
  show "get_all_rgbs ! ?i = (r, g, b)"
    using get_all_rgbs_nth [OF i] d m d2 m2 by simp
qed

lemma create_lab_array_nth:
  fixes r g b :: uint8
  shows "create_lab_array rgb_to_lab ! (unat r * 65536 + unat g * 256 + unat b) = rgb_to_lab (r, g, b)"
  unfolding create_lab_array_def
  using rgb_index [of r g b] by (simp add: get_all_rgbs_length)

lemma length_create_lab_array: "length (create_lab_array rgb_to_lab) = 16777216"
  by (simp add: create_lab_array_def get_all_rgbs_length)

lemma all_nd_map: "all_nd P (map_ndarray f a) = all_nd (\<lambda>x. P (f x)) a"
  by (induction a) (simp_all add: list_all_iff)

lemma all_nd_all: "(\<And>x. P x) \<Longrightarrow> all_nd P a"
  by (induction a) (simp_all add: list_all_iff)

lemma shape_map: "shape (map_ndarray f a) = shape a"
proof (induction a)
  case (Elem x)
  then show ?case by simp
next
  case (Arr xs)
  then show ?case by (cases xs) simp_all
qed

lemma fancy_index_shape: "fancy_index a idx = Inr out \<Longrightarrow> shape out = shape idx"
  by (auto simp: fancy_index_def shape_map split: if_splits)

lemma rgb_to_ind_scalar_less: "rgb_to_ind_scalar c < 16777216"
proof -
  obtain r g b where c: "c = (r, g, b)" by (cases c) auto
  show ?thesis using rgb_index(1) [of r g b] by (simp add: c rgb_to_ind_scalar_def)
qed

lemma shape_rgb_to_ind: "shape (rgb_to_ind arr) = shape arr"
  by (simp add: rgb_to_ind_def shape_map)

lemma data_frame:
  assumes "data w p = (res, w')"
  shows "text_files w' = text_files w" "npy_files w' = npy_files w" "lab_npy w' = lab_npy w"
    "PALETTES w' = PALETTES w"
    "data_path (objs w' q) = data_path (objs w q)"
    "cached_data_path (objs w' q) = cached_data_path (objs w q)"
    "lookup_table_memo (objs w' q) = lookup_table_memo (objs w q)"
  using assms
  by (auto simp: data_def set_obj_def split: option.splits sum.splits)

lemma data_memoised:
  assumes "data w p = (Inr d, w')"
  shows "data_memo (objs w' p) = Some d"
  using assms
  by (auto simp: data_def set_obj_def split: option.splits sum.splits)

lemma data_again:
  assumes "data_memo (objs w p) = Some d"
  shows "data w p = (Inr d, w)"
  using assms by (simp add: data_def)

lemma rgbs_cases:
  obtains (fail) e w' where "rgbs w p = (Inl e, w')" "data w p = (Inl e, w')"
  | (ok) d w' where "rgbs w p = (Inr (map (\<lambda>x. (row_r x, row_g x, row_b x)) d), w')" "data w p = (Inr d, w')"
proof (cases "data w p")
  case (Pair res w')
  then show ?thesis
    by (cases res) (auto simp: rgbs_def intro: fail ok)
qed

lemma rgbs_frame:
  assumes "rgbs w p = (res, w')"
  shows "text_files w' = text_files w" "npy_files w' = npy_files w" "lab_npy w' = lab_npy w"
    "PALETTES w' = PALETTES w"
    "data_path (objs w' q) = data_path (objs w q)"
    "cached_data_path (objs w' q) = cached_data_path (objs w q)"
    "lookup_table_memo (objs w' q) = lookup_table_memo (objs w q)"
proof -
  obtain r' where d: "data w p = (r', w')"
    using assms by (cases "data w p") (auto simp: rgbs_def split: sum.splits)
  show "text_files w' = text_files w" "npy_files w' = npy_files w" "lab_npy w' = lab_npy w"
    "PALETTES w' = PALETTES w"
    "data_path (objs w' q) = data_path (objs w q)"
    "cached_data_path (objs w' q) = cached_data_path (objs w q)"
    "lookup_table_memo (objs w' q) = lookup_table_memo (objs w q)"
    using data_frame [OF d] by simp_all
qed

lemma rgbs_again:
  assumes "rgbs w p = (Inr cs, w')"
  shows "rgbs w' p = (Inr cs, w')"
proof -
  obtain d where d: "data w p = (Inr d, w')" and cs: "cs = map (\<lambda>x. (row_r x, row_g x, row_b x)) d"
    using assms by (cases "data w p") (auto simp: rgbs_def split: sum.splits)
  have "data w' p = (Inr d, w')" using data_memoised [OF d] by (rule data_again)
  then show ?thesis by (simp add: rgbs_def cs)
qed

lemma load_lab_array_frame:
  assumes "load_lab_array rgb_to_lab w = (a, w')"
  shows "text_files w' = text_files w" "npy_files w' = npy_files w" "objs w' = objs w"
    "PALETTES w' = PALETTES w"
  using assms by (auto simp: load_lab_array_def Let_def split: option.splits)

lemma load_lab_array_computed:
  assumes "lab_npy w = None \<or> lab_npy w = Some (create_lab_array rgb_to_lab)"
  shows "fst (load_lab_array rgb_to_lab w) = create_lab_array rgb_to_lab"
  using assms by (auto simp: load_lab_array_def Let_def)

lemma build_ok:
  assumes r: "rgbs w p = (Inr cs, w1)" and ne: "cs \<noteq> []"
  obtains t w' where "build delta_e rgb_to_lab w p = (Inr (), w')"
    "create_lookup_table delta_e (map rgb_to_lab cs) (fst (load_lab_array rgb_to_lab w1)) = Inr t"
    "npy_files w' = (npy_files w)(cached_data_path (objs w p) \<mapsto> t)"
    "objs w' = objs w1" "text_files w' = text_files w" "PALETTES w' = PALETTES w"
proof -
  obtain a w2 where l: "load_lab_array rgb_to_lab w1 = (a, w2)"
    by (cases "load_lab_array rgb_to_lab w1")
  have "map rgb_to_lab cs \<noteq> []" using ne by simp
  from seq_table [OF this] obtain t where t: "create_lookup_table delta_e (map rgb_to_lab cs) a = Inr t"
    by blast
  let ?w' = "w2\<lparr>npy_files := (npy_files w2)(cached_data_path (objs w2 p) \<mapsto> t)\<rparr>"
  have b: "build delta_e rgb_to_lab w p = (Inr (), ?w')"
    by (simp add: build_def r l t)
  show thesis
  proof (rule that [OF b])
    show "create_lookup_table delta_e (map rgb_to_lab cs) (fst (load_lab_array rgb_to_lab w1)) = Inr t"
      using t l by simp
    show "npy_files ?w' = (npy_files w)(cached_data_path (objs w p) \<mapsto> t)"
      using load_lab_array_frame [OF l] rgbs_frame [OF r] by simp
    show "objs ?w' = objs w1" using load_lab_array_frame [OF l] by simp
    show "text_files ?w' = text_files w"
      using load_lab_array_frame [OF l] rgbs_frame [OF r] by simp
    show "PALETTES ?w' = PALETTES w"
      using load_lab_array_frame [OF l] rgbs_frame [OF r] by simp
  qed
qed

lemma red_blue_rows:
  "load_rows [''red,red,255,0,0'', ''blue,blue,0,0,255'']
     = Inr [Row ''red'' ''red'' 255 0 0 [], Row ''blue'' ''blue'' 0 0 255 []]"
  by code_simp

lemma red_blue_rgbs:
  "fst (rgbs red_blue_world 1) = Inr [(255, 0, 0), (0, 0, 255)]"
  by (simp add: rgbs_def data_def red_blue_world_def red_blue_def red_blue_rows set_obj_def
        del: load_rows.simps)

lemma sched_table_unique:
  assumes ne: "arr_lab \<noteq> []"
    and s1: "\<forall>i. i \<in> set s1 \<longleftrightarrow> i < (256 ^ 3 :: nat)"
    and s2: "\<forall>i. i \<in> set s2 \<longleftrightarrow> i < (256 ^ 3 :: nat)"
  shows "create_lookup_table_sched delta_e s1 arr_lab all_lab
           = create_lookup_table_sched delta_e s2 arr_lab all_lab"
proof -
  define g :: "nat \<Rightarrow> uint16"
    where "g = (\<lambda>i. of_nat (projr (argmin (deltaes delta_e arr_lab (all_lab ! i)))))"
  define n :: nat where "n = 256 ^ 3"
  from sched_table [OF ne s1, of delta_e all_lab] obtain t1
    where t1: "create_lookup_table_sched delta_e s1 arr_lab all_lab = Inr t1" "length t1 = n"
      "\<forall>i<n. t1 ! i = g i"
    unfolding g_def n_def by (elim exE conjE)
  from sched_table [OF ne s2, of delta_e all_lab] obtain t2
    where t2: "create_lookup_table_sched delta_e s2 arr_lab all_lab = Inr t2" "length t2 = n"
      "\<forall>i<n. t2 ! i = g i"
    unfolding g_def n_def by (elim exE conjE)
  have "t1 = t2"
  proof (rule nth_equalityI)
    show "length t1 = length t2" using t1(2) t2(2) by simp
    fix i assume "i < length t1"
    then have "i < n" using t1(2) by simp
    then show "t1 ! i = t2 ! i" using t1(3) t2(3) by simp
  qed
  then show ?thesis using t1(1) t2(1) by simp
qed

lemma sched_table_slot:
  assumes s1: "\<forall>i. i \<in> set s1 \<longleftrightarrow> i < (256 ^ 3 :: nat)"
    and s2: "\<forall>i. i \<in> set s2 \<longleftrightarrow> i < (256 ^ 3 :: nat)"
    and t1: "create_lookup_table_sched delta_e s1 arr_lab all_lab = Inr t1"
    and t2: "create_lookup_table_sched delta_e s2 arr_lab all_lab' = Inr t2"
    and i: "i < 256 ^ 3" and same: "all_lab' ! i = all_lab ! i"
  shows "t1 ! i = t2 ! i"
proof (cases "arr_lab = []")
  case True
  have "t1 = replicate (256 ^ 3) 0"
    using t1 unfolding True by (simp only: sched_table_empty_palette sum.inject)
  moreover have "t2 = replicate (256 ^ 3) 0"
    using t2 unfolding True by (simp only: sched_table_empty_palette sum.inject)
  ultimately show ?thesis by (simp only:)
next
  case ne: False
  define n :: nat where "n = 256 ^ 3"
  from sched_table [OF ne s1, of delta_e all_lab] obtain u1
    where u1: "create_lookup_table_sched delta_e s1 arr_lab all_lab = Inr u1"
      "\<forall>i<n. u1 ! i = of_nat (projr (argmin (deltaes delta_e arr_lab (all_lab ! i))))"
    unfolding n_def by (elim exE conjE)
  from sched_table [OF ne s2, of delta_e all_lab'] obtain u2
    where u2: "create_lookup_table_sched delta_e s2 arr_lab all_lab' = Inr u2"
      "\<forall>i<n. u2 ! i = of_nat (projr (argmin (deltaes delta_e arr_lab (all_lab' ! i))))"
    unfolding n_def by (elim exE conjE)
  have "u1 = t1" "u2 = t2" using u1(1) t1 u2(1) t2 by simp_all
  moreover have "i < n" using i by (simp add: n_def)
  ultimately show ?thesis using u1(2) u2(2) same by simp
qed

lemma rev_schedule: "\<forall>i. i \<in> set (rev [0..<256 ^ 3]) \<longleftrightarrow> i < (256 ^ 3 :: nat)"
  unfolding set_rev by (rule seq_schedule)

lemma entries_below:
  assumes ne: "arr_lab \<noteq> []"
  shows "\<exists>t. create_lookup_table delta_e arr_lab all_lab = Inr t \<and> length t = 256 ^ 3
           \<and> (\<forall>i<256 ^ 3. unat (t ! i) < length arr_lab)"
proof -
  from table_entries [OF ne, of delta_e all_lab] obtain t
    where t: "create_lookup_table delta_e arr_lab all_lab = Inr t" "length t = 256 ^ 3"
      and e: "\<forall>i<256 ^ 3. \<exists>j. t ! i = of_nat j \<and> j < length arr_lab
           \<and> (\<forall>k<length arr_lab. lab_distance delta_e (all_lab ! i) (arr_lab ! j)
                                   \<le> lab_distance delta_e (all_lab ! i) (arr_lab ! k))
           \<and> (\<forall>k<j. lab_distance delta_e (all_lab ! i) (arr_lab ! j)
                      < lab_distance delta_e (all_lab ! i) (arr_lab ! k))"
    by (elim exE conjE)
  have "unat (t ! i) < length arr_lab" if "i < 256 ^ 3" for i
  proof -
    from e that obtain j where j: "t ! i = of_nat j" "j < length arr_lab" by blast
    have "unat (t ! i) \<le> j" unfolding j(1) by (rule unat_entry_le)
    then show ?thesis using j(2) by simp
  qed
  then show ?thesis using t by blast
qed

lemma fancy_index_ok:
  "all_nd (\<lambda>i. i < length a) idx \<Longrightarrow> fancy_index a idx = Inr (map_ndarray (\<lambda>i. a ! i) idx)"
  by (simp add: fancy_index_def)

lemma lookup_table_from_file:
  assumes "lookup_table_memo (objs w p) = None"
    and "npy_files w (cached_data_path (objs w p)) = Some t"
  shows "lookup_table w p = (Inr t, set_obj w p ((objs w p)\<lparr>lookup_table_memo := Some t\<rparr>))"
  using assms by (simp add: lookup_table_def)

lemma lookup_table_from_memo:
  assumes "lookup_table_memo (objs w p) = Some t"
  shows "lookup_table w p = (Inr t, w)"
  using assms by (simp add: lookup_table_def)

lemma lookup_table_missing:
  assumes "lookup_table_memo (objs w p) = None"
    and "npy_files w (cached_data_path (objs w p)) = None"
  shows "lookup_table w p = (Inl FileNotFoundError, w)"
  using assms by (simp add: lookup_table_def)

lemma convert_to_indices_ok:
  assumes l: "lookup_table w p = (Inr t, w2)" and len: "length t = 256 ^ 3"
  shows "convert_to_indices w p img = (Inr (map_ndarray (\<lambda>c. t ! rgb_to_ind_scalar c) img), w2)"
proof -
  have "all_nd (\<lambda>i. i < length t) (rgb_to_ind img)"
    unfolding rgb_to_ind_def all_nd_map
    by (rule all_nd_all) (simp add: len rgb_to_ind_scalar_less)
  then have "fancy_index t (rgb_to_ind img) = Inr (map_ndarray (\<lambda>i. t ! i) (rgb_to_ind img))"
    by (rule fancy_index_ok)
  then show ?thesis
    by (simp add: convert_to_indices_def l rgb_to_ind_def ndarray.map_comp comp_def)
qed

lemma convert_to_rgbs_ok:
  assumes r: "rgbs w p = (Inr cs, w1)" and l: "lookup_table w1 p = (Inr t, w2)"
    and len: "length t = 256 ^ 3" and e: "\<forall>i<256 ^ 3. unat (t ! i) < length cs"
  shows "convert_to_rgbs w p img
           = (Inr (map_ndarray (\<lambda>c. cs ! unat (t ! rgb_to_ind_scalar c)) img), w2)"
proof -
  have i: "convert_to_indices w1 p img = (Inr (map_ndarray (\<lambda>c. t ! rgb_to_ind_scalar c) img), w2)"
    using l len by (rule convert_to_indices_ok)
  have "all_nd (\<lambda>i. i < length cs) (map_ndarray unat (map_ndarray (\<lambda>c. t ! rgb_to_ind_scalar c) img))"
    unfolding all_nd_map
  proof (rule all_nd_all)
    fix c
    have "rgb_to_ind_scalar c < 256 ^ 3" using rgb_to_ind_scalar_less [of c] by simp
    then show "unat (t ! rgb_to_ind_scalar c) < length cs" using e by blast
  qed
  then have "fancy_index cs (map_ndarray unat (map_ndarray (\<lambda>c. t ! rgb_to_ind_scalar c) img))
               = Inr (map_ndarray (\<lambda>i. cs ! i) (map_ndarray unat (map_ndarray (\<lambda>c. t ! rgb_to_ind_scalar c) img)))"
    by (rule fancy_index_ok)
  then show ?thesis
    by (simp add: convert_to_rgbs_def r i ndarray.map_comp comp_def)
qed

lemma rgbs_memo:
  assumes "rgbs w p = (Inr cs, w1)"
  shows "\<exists>d. data_memo (objs w1 p) = Some d \<and> cs = map (\<lambda>x. (row_r x, row_g x, row_b x)) d"
proof -
  obtain d where d: "data w p = (Inr d, w1)" and cs: "cs = map (\<lambda>x. (row_r x, row_g x, row_b x)) d"
    using assms by (cases "data w p") (auto simp: rgbs_def split: sum.splits)
  show ?thesis using data_memoised [OF d] cs by blast
qed

lemma rgbs_of_memo:
  assumes "data_memo (objs w p) = Some d"
  shows "rgbs w p = (Inr (map (\<lambda>x. (row_r x, row_g x, row_b x)) d), w)"
  using assms by (simp add: rgbs_def data_def)

lemma after_build:
  assumes r: "rgbs w p = (Inr cs, w1)" and ne: "cs \<noteq> []"
    and m: "lookup_table_memo (objs w p) = None"
  shows "\<exists>t w'. build delta_e rgb_to_lab w p = (Inr (), w')
    \<and> npy_files w' (cached_data_path (objs w' p)) = Some t
    \<and> rgbs w' p = (Inr cs, w') \<and> length t = 256 ^ 3
    \<and> (\<forall>i<256 ^ 3. unat (t ! i) < length cs)
    \<and> (\<forall>img. \<exists>w''. convert_to_rgbs w' p img
               = (Inr (map_ndarray (\<lambda>c. cs ! unat (t ! rgb_to_ind_scalar c)) img), w''))"
proof -
  from r ne obtain t w' where b: "build delta_e rgb_to_lab w p = (Inr (), w')"
    and tbl: "create_lookup_table delta_e (map rgb_to_lab cs) (fst (load_lab_array rgb_to_lab w1)) = Inr t"
    and f: "npy_files w' = (npy_files w)(cached_data_path (objs w p) \<mapsto> t)"
    and o: "objs w' = objs w1"
    by (rule build_ok)
  have ne': "map rgb_to_lab cs \<noteq> []" using ne by simp
  from entries_below [OF ne', of delta_e "fst (load_lab_array rgb_to_lab w1)"] tbl
  have len: "length t = 256 ^ 3" and ent: "\<forall>i<256 ^ 3. unat (t ! i) < length cs"
    by auto
  have cp: "cached_data_path (objs w' p) = cached_data_path (objs w p)"
    using o rgbs_frame(6) [OF r] by simp
  have fl: "npy_files w' (cached_data_path (objs w' p)) = Some t"
    using f cp by simp
  have memo: "lookup_table_memo (objs w' p) = None"
    using o rgbs_frame(7) [OF r, of p] m by simp
  from rgbs_memo [OF r] obtain d where d: "data_memo (objs w1 p) = Some d"
    and cs: "cs = map (\<lambda>x. (row_r x, row_g x, row_b x)) d" by blast
  have "data_memo (objs w' p) = Some d" using d o by simp
  then have r': "rgbs w' p = (Inr cs, w')" unfolding cs by (rule rgbs_of_memo)
  have l: "lookup_table w' p
             = (Inr t, set_obj w' p ((objs w' p)\<lparr>lookup_table_memo := Some t\<rparr>))"
    using memo fl by (rule lookup_table_from_file)
  have c: "\<forall>img. \<exists>w''. convert_to_rgbs w' p img
               = (Inr (map_ndarray (\<lambda>c. cs ! unat (t ! rgb_to_ind_scalar c)) img), w'')"
    using convert_to_rgbs_ok [OF r' l len ent] by blast
  show ?thesis
    by (intro exI conjI) (rule b fl r' len ent c)+
qed

lemma red_blue_rgbs_pair:
  "rgbs red_blue_world 1 = (Inr [(255, 0, 0), (0, 0, 255)], snd (rgbs red_blue_world 1))"
  using red_blue_rgbs by (metis prod.collapse)

lemma red_blue_build:
  "build city_block int_lab red_blue_world 1
     = (Inr (), snd (build city_block int_lab red_blue_world 1))"
proof -
  have r: "rgbs red_blue_world 1 = (Inr [(255, 0, 0), (0, 0, 255)], snd (rgbs red_blue_world 1))"
    using red_blue_rgbs by (metis prod.collapse)
  have "[(255, 0, 0), (0, 0, 255) :: rgb] \<noteq> []" by simp
  with r obtain t w' where "build city_block int_lab red_blue_world 1 = (Inr (), w')"
    by (rule build_ok)
  then show ?thesis by simp
qed

lemma red_blue_memo: "lookup_table_memo (objs red_blue_world 1) = None"
  by (simp add: red_blue_world_def red_blue_def)

lemma shape_Elem_iff: "shape a = [] \<longleftrightarrow> (\<exists>x. a = Elem x)"
  by (cases a) simp_all

lemma convert_to_indices_shape:
  assumes "convert_to_indices w p img = (Inr idx, w')"
  shows "shape idx = shape img"
proof -
  obtain res w1 where l: "lookup_table w p = (res, w1)" by (cases "lookup_table w p")
  show ?thesis
  proof (cases res)
    case (Inl e)
    then show ?thesis using assms l by (simp add: convert_to_indices_def)
  next
    case (Inr t)
    then have "fancy_index t (rgb_to_ind img) = Inr idx"
      using assms l by (simp add: convert_to_indices_def)
    then have "shape idx = shape (rgb_to_ind img)" by (rule fancy_index_shape)
    then show ?thesis by (simp add: shape_rgb_to_ind)
  qed
qed

lemma convert_to_rgbs_shape:
  assumes "convert_to_rgbs w p img = (Inr out, w')"
  shows "shape out = shape img"
proof -
  obtain res w1 where r: "rgbs w p = (res, w1)" by (cases "rgbs w p")
  show ?thesis
  proof (cases res)
    case (Inl e)
    then show ?thesis using assms r by (simp add: convert_to_rgbs_def)
  next
    case (Inr cs)
    obtain res2 w2 where i: "convert_to_indices w1 p img = (res2, w2)"
      by (cases "convert_to_indices w1 p img")
    show ?thesis
    proof (cases res2)
      case (Inl e)
      then show ?thesis using assms r Inr i by (simp add: convert_to_rgbs_def)
    next
      case idx: (Inr idx)
      then have "fancy_index cs (map_ndarray unat idx) = Inr out"
        using assms r Inr i by (simp add: convert_to_rgbs_def)
      then have "shape out = shape (map_ndarray unat idx)" by (rule fancy_index_shape)
      moreover have "shape idx = shape img"
        using i idx by (simp add: convert_to_indices_shape)
      ultimately show ?thesis by (simp add: shape_map)
    qed
  qed
qed

lemma quantize_with_palette_shape:
  assumes "quantize_with_palette w img palette = (Inr out, w')"
  shows "shape out = shape img"
proof (cases "get_palette w palette")
  case (Inl e)
  then show ?thesis using assms by (simp add: quantize_with_palette_def)
next
  case (Inr p)
  then have "convert_to_rgbs w p img = (Inr out, w')"
    using assms by (simp add: quantize_with_palette_def)
  then show ?thesis by (rule convert_to_rgbs_shape)
qed

lemma red_blue_quantize:
  "\<exists>out w''. quantize_with_palette (snd (build city_block int_lab red_blue_world 1))
       img (Obj 1) = (Inr out, w'')"
proof -
  have ne: "[(255, 0, 0), (0, 0, 255) :: rgb] \<noteq> []" by simp
  from after_build [OF red_blue_rgbs_pair ne red_blue_memo, of city_block int_lab]
  obtain t w' where b: "build city_block int_lab red_blue_world 1 = (Inr (), w')"
    and "npy_files w' (cached_data_path (objs w' 1)) = Some t"
    and "rgbs w' 1 = (Inr [(255, 0, 0), (0, 0, 255)], w')"
    and "length t = 256 ^ 3"
    and "\<forall>i<256 ^ 3. unat (t ! i) < length [(255, 0, 0), (0, 0, 255) :: rgb]"
    and c: "\<forall>img. \<exists>w''. convert_to_rgbs w' 1 img
               = (Inr (map_ndarray (\<lambda>c. [(255, 0, 0), (0, 0, 255) :: rgb]
                                    ! unat (t ! rgb_to_ind_scalar c)) img), w'')"
    by (elim exE conjE)
  have "snd (build city_block int_lab red_blue_world 1) = w'" using b by simp
  then have "\<exists>out w''. convert_to_rgbs (snd (build city_block int_lab red_blue_world 1)) 1 img
          = (Inr out, w'')"
    using c by blast
  then show ?thesis by (simp add: quantize_with_palette_def get_palette_def)
qed

lemma load_rows_replicate:
  assumes "iterline l = Inr l'" and "loadtxt_row l' = Inr (Some x)"
  shows "load_rows (replicate n l @ ls)
           = (case load_rows ls of Inl e \<Rightarrow> Inl e | Inr xs \<Rightarrow> Inr (replicate n x @ xs))"
  using assms by (induction n) (simp_all split: sum.splits)

lemma red_line:
  "iterline ''red,red,255,0,0'' = Inr ''red,red,255,0,0,#ff0000''"
  "loadtxt_row ''red,red,255,0,0,#ff0000'' = Inr (Some (Row ''red'' ''red'' 255 0 0 []))"
  by code_simp+

lemma blue_line:
  "load_rows [''blue,blue,0,0,255''] = Inr [Row ''blue'' ''blue'' 0 0 255 []]"
  by code_simp

lemma red_then_blue_rows:
  "load_rows (red_then_blue n)
     = Inr (replicate n (Row ''red'' ''red'' 255 0 0 []) @ [Row ''blue'' ''blue'' 0 0 255 []])"
  unfolding red_then_blue_def load_rows_replicate [OF red_line] blue_line by simp

lemma rgbs_of_file:
  assumes "data_memo (objs w p) = None"
    and "text_files w (data_path (objs w p)) = Some lines"
    and "load_rows lines = Inr d"
  shows "rgbs w p = (Inr (map (\<lambda>x. (row_r x, row_g x, row_b x)) d),
                     set_obj w p ((objs w p)\<lparr>data_memo := Some d\<rparr>))"
  using assms by (simp add: rgbs_def data_def)

lemma wide_rgbs:
  "\<exists>w1. rgbs wide_world 0 = (Inr (replicate 65536 (255, 0, 0) @ [(0, 0, 255)]), w1)"
proof -
  have 1: "data_memo (objs wide_world 0) = None" by (simp add: wide_world_def wide_def)
  have 2: "text_files wide_world (data_path (objs wide_world 0)) = Some (red_then_blue 65536)"
    by (simp add: wide_world_def wide_def)
  show ?thesis
    unfolding rgbs_of_file [OF 1 2 red_then_blue_rows] by (simp only: map_append map_replicate list.map row.sel) blast
qed

lemma entry_after_run:
  assumes lt: "lab_distance delta_e (all_lab ! i) b < lab_distance delta_e (all_lab ! i) a"
    and bs: "list_all (\<lambda>c. lab_distance delta_e (all_lab ! i) b \<le> lab_distance delta_e (all_lab ! i) c) bs"
    and i: "i < 256 ^ 3"
  shows "\<exists>t. create_lookup_table delta_e (replicate n a @ b # bs) all_lab = Inr t
           \<and> length t = 256 ^ 3 \<and> t ! i = of_nat n"
proof -
  let ?arr = "replicate n a @ b # bs"
  let ?d = "\<lambda>c. lab_distance delta_e (all_lab ! i) c"
  have ne: "?arr \<noteq> []" by simp
  from table_entries [OF ne, of delta_e all_lab] obtain t
    where t: "create_lookup_table delta_e ?arr all_lab = Inr t" "length t = 256 ^ 3"
      and e: "\<forall>i<256 ^ 3. \<exists>j. t ! i = of_nat j \<and> j < length ?arr
           \<and> (\<forall>k<length ?arr. lab_distance delta_e (all_lab ! i) (?arr ! j)
                                   \<le> lab_distance delta_e (all_lab ! i) (?arr ! k))
           \<and> (\<forall>k<j. lab_distance delta_e (all_lab ! i) (?arr ! j)
                      < lab_distance delta_e (all_lab ! i) (?arr ! k))"
    by (elim exE conjE)
  from e i obtain j where j: "t ! i = of_nat j" "j < length ?arr"
      "\<forall>k<length ?arr. ?d (?arr ! j) \<le> ?d (?arr ! k)"
      "\<forall>k<j. ?d (?arr ! j) < ?d (?arr ! k)"
    by blast
  have n: "?arr ! n = b" by (simp add: nth_append)
  have nl: "n < length ?arr" by simp
  have "j = n"
  proof (rule ccontr)
    assume "j \<noteq> n"
    then consider "j < n" | "n < j" by linarith
    then show False
    proof cases
      case 1
      then have "?arr ! j = a" by (simp add: nth_append)
      moreover have "?d (?arr ! j) \<le> ?d b" using j(3) nl n by metis
      ultimately show False using lt by simp
    next
      case 2
      then have "?d (?arr ! j) < ?d b" using j(4) n by metis
      moreover have "?arr ! j \<in> set bs"
        using 2 j(2) by (simp add: nth_append nth_Cons')
      then have "?d b \<le> ?d (?arr ! j)" using bs by (simp add: list_all_iff)
      ultimately show False by simp
    qed
  qed
  then show ?thesis using t j(1) by blast
qed

lemma blue_index: "create_lab_array int_lab ! 255 = int_lab (0, 0, 255)"
  using create_lab_array_nth [of int_lab 0 0 255] by simp

lemma wrap_65536: "unat (of_nat 65536 :: uint16) = 0"
  by simp


lemma red_blue_dist:
  "lab_distance city_block (int_lab (0, 0, 255)) (int_lab (0, 0, 255)) = 0"
  "lab_distance city_block (int_lab (0, 0, 255)) (int_lab (255, 0, 0)) = 510"
  by (simp_all add: lab_distance_def city_block_def int_lab_def)

section \<open>The claims\<close>

text \<open>
  C1. For a palette with at least one colour and at most 65536 colours,
  \<open>Palette.build\<close> over the LAB array of \<open>_get_all_rgbs\<close> saves a table of exactly
  \<open>256^3\<close> entries of \<open>uint16\<close>; \<open>_get_all_rgbs\<close> holds the triplet \<open>(r, g, b)\<close> at
  the index \<open>r * 65536 + g * 256 + b\<close>, and the entry of the table at that index is the
  index of a palette colour at minimal distance from \<open>(r, g, b)\<close>. The upper bound is
  needed: \<open>Palette.data\<close> loads a file of any length, and an index above 65535 does not
  fit the \<open>uint16\<close> entry.
\<close>

theorem build_table_nearest:
  fixes r g b :: uint8
  assumes "rgbs w p = (Inr cs, w1)" and "cs \<noteq> []" and "length cs \<le> 65536"
    and "lab_npy w = None \<or> lab_npy w = Some (create_lab_array rgb_to_lab)"
  shows "\<exists>t w'. build delta_e rgb_to_lab w p = (Inr (), w')
           \<and> npy_files w' (cached_data_path (objs w p)) = Some t
           \<and> length t = 256 ^ 3
           \<and> get_all_rgbs ! (unat r * 65536 + unat g * 256 + unat b) = (r, g, b)
           \<and> unat (t ! (unat r * 65536 + unat g * 256 + unat b)) < length cs
           \<and> (\<forall>k<length cs.
                 lab_distance delta_e (rgb_to_lab (r, g, b))
                   (rgb_to_lab (cs ! unat (t ! (unat r * 65536 + unat g * 256 + unat b))))
                 \<le> lab_distance delta_e (rgb_to_lab (r, g, b)) (rgb_to_lab (cs ! k)))"
proof -
  let ?i = "unat r * 65536 + unat g * 256 + unat b"
  let ?all = "create_lab_array rgb_to_lab"
  let ?arr = "map rgb_to_lab cs"
  obtain t w' where b: "build delta_e rgb_to_lab w p = (Inr (), w')"
    and t: "create_lookup_table delta_e ?arr (fst (load_lab_array rgb_to_lab w1)) = Inr t"
    and f: "npy_files w' = (npy_files w)(cached_data_path (objs w p) \<mapsto> t)"
    using assms(1,2) by (rule build_ok)
  have "lab_npy w1 = lab_npy w" using rgbs_frame(3) [OF assms(1)] .
  then have "fst (load_lab_array rgb_to_lab w1) = ?all"
    using assms(4) by (simp add: load_lab_array_computed)
  then have t': "create_lookup_table delta_e ?arr ?all = Inr t" using t by simp
  have ne: "?arr \<noteq> []" using assms(2) by simp
  have i: "?i < 256 ^ 3" using rgb_index(1) [of r g b] by simp
  from table_entries [OF ne, of delta_e ?all] t'
  have len: "length t = 256 ^ 3"
    and ent: "\<forall>i<256 ^ 3. \<exists>j. t ! i = of_nat j \<and> j < length ?arr
           \<and> (\<forall>k<length ?arr. lab_distance delta_e (?all ! i) (?arr ! j) \<le> lab_distance delta_e (?all ! i) (?arr ! k))
           \<and> (\<forall>k<j. lab_distance delta_e (?all ! i) (?arr ! j) < lab_distance delta_e (?all ! i) (?arr ! k))"
    by auto
  from ent i obtain j where j: "t ! ?i = of_nat j" "j < length ?arr"
    "\<forall>k<length ?arr. lab_distance delta_e (?all ! ?i) (?arr ! j) \<le> lab_distance delta_e (?all ! ?i) (?arr ! k)"
    by blast
  have jl: "j < length cs" using j(2) by simp
  have u: "unat (t ! ?i) = j" using j(1) jl assms(3) by (simp add: unat_entry_small)
  have lab: "?all ! ?i = rgb_to_lab (r, g, b)" by (rule create_lab_array_nth)
  have min: "\<forall>k<length cs. lab_distance delta_e (rgb_to_lab (r, g, b)) (rgb_to_lab (cs ! j))
                 \<le> lab_distance delta_e (rgb_to_lab (r, g, b)) (rgb_to_lab (cs ! k))"
    using j(3) jl by (simp add: lab)
  have "npy_files w' (cached_data_path (objs w p)) = Some t" using f by simp
  with b len rgb_index(2) [of r g b] u jl min show ?thesis by auto
qed

theorem build_table_nearest_witness:
  "rgbs red_blue_world 1 = (Inr [(255, 0, 0), (0, 0, 255)], snd (rgbs red_blue_world 1))
   \<and> [(255, 0, 0), (0, 0, 255) :: rgb] \<noteq> []
   \<and> length [(255, 0, 0), (0, 0, 255) :: rgb] \<le> 65536
   \<and> (lab_npy red_blue_world = None \<or> lab_npy red_blue_world = Some (create_lab_array int_lab))
   \<and> (\<exists>t w'. build city_block int_lab red_blue_world 1 = (Inr (), w')
           \<and> npy_files w' ''red_blue.npy'' = Some t
           \<and> length t = 16777216
           \<and> unat (t ! 13109770) < 2)"
proof -
  have h1: "rgbs red_blue_world 1 = (Inr [(255, 0, 0), (0, 0, 255)], snd (rgbs red_blue_world 1))"
    using red_blue_rgbs by (metis prod.collapse)
  have h2: "[(255, 0, 0), (0, 0, 255) :: rgb] \<noteq> []" by simp
  have h3: "length [(255, 0, 0), (0, 0, 255) :: rgb] \<le> 65536" by simp
  have h4: "lab_npy red_blue_world = None \<or> lab_npy red_blue_world = Some (create_lab_array int_lab)"
    by (simp add: red_blue_world_def)
  have p: "cached_data_path (objs red_blue_world (Suc 0)) = ''red_blue.npy''"
    by (simp add: red_blue_world_def red_blue_def)
  from build_table_nearest [OF h1 h2 h3 h4, where r = 200 and g = 10 and b = 10
      and delta_e = city_block]
  show ?thesis using h1 h4 by (auto simp: p)
qed

text \<open>
  Without the upper bound the property fails. The file of 65536 lines for red and one
  line for blue loads into 65537 colours; for the query blue, \<open>np.argmin\<close> returns
  65536, the store into the \<open>uint16\<close> table keeps 0, and colour 0 is red, which is
  farther from blue than colour 65536.
\<close>

theorem build_table_nearest_counterexample:
  "\<not> isl (fst (rgbs wide_world 0))
   \<and> length (projr (fst (rgbs wide_world 0))) = 65537
   \<and> lab_npy wide_world = None
   \<and> fst (build city_block int_lab wide_world 0) = Inr ()
   \<and> get_all_rgbs ! 255 = (0, 0, 255)
   \<and> unat (the (npy_files (snd (build city_block int_lab wide_world 0)) ''wide.npy'') ! 255) = 0
   \<and> lab_distance city_block (int_lab (0, 0, 255))
         (int_lab (projr (fst (rgbs wide_world 0)) ! 65536)) = 0
   \<and> lab_distance city_block (int_lab (0, 0, 255))
         (int_lab (projr (fst (rgbs wide_world 0)) ! 0)) = 510"
proof -
  define n :: nat where "n = 65536"
  define cs :: "rgb list" where "cs = replicate n (255, 0, 0) @ [(0, 0, 255)]"
  from wide_rgbs obtain w1 where r: "rgbs wide_world 0 = (Inr cs, w1)"
    unfolding cs_def n_def by (elim exE)
  have ne: "cs \<noteq> []" by (simp add: cs_def)
  have len: "length cs = 65537" by (simp add: cs_def n_def)
  have lab: "lab_npy wide_world = None" by (simp add: wide_world_def)
  obtain t w' where b: "build city_block int_lab wide_world 0 = (Inr (), w')"
    and t: "create_lookup_table city_block (map int_lab cs) (fst (load_lab_array int_lab w1)) = Inr t"
    and f: "npy_files w' = (npy_files wide_world)(cached_data_path (objs wide_world 0) \<mapsto> t)"
    using r ne by (rule build_ok)
  have "lab_npy w1 = lab_npy wide_world" using rgbs_frame(3) [OF r] .
  then have "fst (load_lab_array int_lab w1) = create_lab_array int_lab"
    using lab by (simp add: load_lab_array_computed)
  then have t': "create_lookup_table city_block (replicate n (int_lab (255, 0, 0)) @ int_lab (0, 0, 255) # [])
                   (create_lab_array int_lab) = Inr t"
    using t by (simp add: cs_def)
  have i: "(255::nat) < 256 ^ 3" by simp
  have lt: "lab_distance city_block (create_lab_array int_lab ! 255) (int_lab (0, 0, 255))
              < lab_distance city_block (create_lab_array int_lab ! 255) (int_lab (255, 0, 0))"
    unfolding blue_index red_blue_dist by simp
  have bs: "list_all (\<lambda>c. lab_distance city_block (create_lab_array int_lab ! 255) (int_lab (0, 0, 255))
                          \<le> lab_distance city_block (create_lab_array int_lab ! 255) c) []"
    by simp
  from entry_after_run [OF lt bs i, of n] t'
  have e: "t ! 255 = of_nat n" by simp
  have u: "unat (t ! 255) = 0" unfolding e n_def by (rule wrap_65536)
  have c0: "cs ! 0 = (255, 0, 0)" by (simp add: cs_def n_def nth_append)
  have cn: "cs ! 65536 = (0, 0, 255)"
    using nth_append_length [of "replicate n (255, 0, 0)" "(0, 0, 255) :: rgb" "[]"]
    by (simp add: cs_def n_def)
  have dn: "lab_distance city_block (int_lab (0, 0, 255)) (int_lab (cs ! 65536)) = 0"
    unfolding cn red_blue_dist by (rule refl)
  have d0: "lab_distance city_block (int_lab (0, 0, 255)) (int_lab (cs ! 0)) = 510"
    unfolding c0 red_blue_dist by (rule refl)
  have g: "get_all_rgbs ! 255 = (0, 0, 255)"
    using rgb_index(2) [of 0 0 255] by simp
  have pth: "cached_data_path (objs wide_world 0) = ''wide.npy''"
    by (simp add: wide_world_def wide_def)
  have fl: "npy_files w' ''wide.npy'' = Some t" using f pth by simp
  have pr: "projr (fst (rgbs wide_world 0)) = cs" using r by simp
  have ir: "\<not> isl (fst (rgbs wide_world 0))" using r by simp
  have fb: "fst (build city_block int_lab wide_world 0) = Inr ()" using b by simp
  have sb: "snd (build city_block int_lab wide_world 0) = w'" using b by simp
  have u': "unat (the (npy_files (snd (build city_block int_lab wide_world 0)) ''wide.npy'') ! 255) = 0"
    unfolding sb fl option.sel by (rule u)
  show ?thesis
    unfolding pr by (intro conjI) (rule ir len lab fb g u' dn d0)+
qed

text \<open>
  C2. For a palette of at most 65536 colours: when several palette colours are at the
  same minimal distance from a query colour, the entry of the table is the lowest of
  their indices: it is not above any index \<open>k\<close> at minimal distance, and it is at that
  distance itself.
\<close>

theorem lowest_index_on_ties:
  fixes r g b :: uint8
  assumes "arr_lab \<noteq> []" and "length arr_lab \<le> 65536" and "k < length arr_lab"
    and "\<forall>m<length arr_lab. lab_distance delta_e (rgb_to_lab (r, g, b)) (arr_lab ! k)
                              \<le> lab_distance delta_e (rgb_to_lab (r, g, b)) (arr_lab ! m)"
  shows "\<exists>t. create_lookup_table delta_e arr_lab (create_lab_array rgb_to_lab) = Inr t
           \<and> unat (t ! (unat r * 65536 + unat g * 256 + unat b)) \<le> k
           \<and> lab_distance delta_e (rgb_to_lab (r, g, b))
                (arr_lab ! unat (t ! (unat r * 65536 + unat g * 256 + unat b)))
              = lab_distance delta_e (rgb_to_lab (r, g, b)) (arr_lab ! k)"
proof -
  let ?i = "unat r * 65536 + unat g * 256 + unat b"
  let ?all = "create_lab_array rgb_to_lab"
  have i: "?i < 256 ^ 3" using rgb_index(1) [of r g b] by simp
  from table_entries [OF assms(1), of delta_e ?all]
  obtain t where t: "create_lookup_table delta_e arr_lab ?all = Inr t"
    and ent: "\<forall>i<256 ^ 3. \<exists>j. t ! i = of_nat j \<and> j < length arr_lab
           \<and> (\<forall>k<length arr_lab. lab_distance delta_e (?all ! i) (arr_lab ! j) \<le> lab_distance delta_e (?all ! i) (arr_lab ! k))
           \<and> (\<forall>k<j. lab_distance delta_e (?all ! i) (arr_lab ! j) < lab_distance delta_e (?all ! i) (arr_lab ! k))"
    by blast
  from ent i obtain j where j: "t ! ?i = of_nat j" "j < length arr_lab"
    "\<forall>k<length arr_lab. lab_distance delta_e (?all ! ?i) (arr_lab ! j) \<le> lab_distance delta_e (?all ! ?i) (arr_lab ! k)"
    "\<forall>k<j. lab_distance delta_e (?all ! ?i) (arr_lab ! j) < lab_distance delta_e (?all ! ?i) (arr_lab ! k)"
    by blast
  have u: "unat (t ! ?i) = j" using j(1,2) assms(2) by (simp add: unat_entry_small)
  have lab: "?all ! ?i = rgb_to_lab (r, g, b)" by (rule create_lab_array_nth)
  have le: "lab_distance delta_e (rgb_to_lab (r, g, b)) (arr_lab ! j) \<le> lab_distance delta_e (rgb_to_lab (r, g, b)) (arr_lab ! k)"
    using j(3) assms(3) by (simp add: lab)
  have ge: "lab_distance delta_e (rgb_to_lab (r, g, b)) (arr_lab ! k) \<le> lab_distance delta_e (rgb_to_lab (r, g, b)) (arr_lab ! j)"
    using assms(4) j(2) by simp
  have "j \<le> k"
  proof (rule ccontr)
    assume "\<not> j \<le> k"
    then have "k < j" by simp
    then have "lab_distance delta_e (rgb_to_lab (r, g, b)) (arr_lab ! j) < lab_distance delta_e (rgb_to_lab (r, g, b)) (arr_lab ! k)"
      using j(4) by (simp add: lab)
    then show False using ge by simp
  qed
  then show ?thesis using t u le ge by auto
qed

theorem lowest_index_on_ties_witness:
  "[(255, 0, 0), (255, 0, 0) :: int lab] \<noteq> []
   \<and> length [(255, 0, 0), (255, 0, 0) :: int lab] \<le> 65536
   \<and> (0::nat) < length [(255, 0, 0), (255, 0, 0) :: int lab]
   \<and> lab_distance city_block (int_lab (200, 10, 10)) ([(255, 0, 0), (255, 0, 0)] ! 0)
         \<le> lab_distance city_block (int_lab (200, 10, 10)) ([(255, 0, 0), (255, 0, 0)] ! 0)
   \<and> lab_distance city_block (int_lab (200, 10, 10)) ([(255, 0, 0), (255, 0, 0)] ! 0)
         \<le> lab_distance city_block (int_lab (200, 10, 10)) ([(255, 0, 0), (255, 0, 0)] ! 1)
   \<and> (\<exists>t. create_lookup_table city_block [(255, 0, 0), (255, 0, 0)] (create_lab_array int_lab) = Inr t
         \<and> t ! 13109770 = 0)"
proof -
  let ?arr = "[(255, 0, 0), (255, 0, 0)] :: int lab list"
  have h1: "?arr \<noteq> []" by simp
  have h2: "length ?arr \<le> 65536" by simp
  have h3: "0 < length ?arr" by simp
  have h4: "\<forall>m<length ?arr.
         lab_distance city_block (int_lab (200, 10, 10)) (?arr ! 0)
         \<le> lab_distance city_block (int_lab (200, 10, 10)) (?arr ! m)"
    by (simp add: less_Suc_eq)
  from lowest_index_on_ties [where arr_lab = ?arr and k = 0 and delta_e = city_block
      and rgb_to_lab = int_lab and r = 200 and g = 10 and b = 10, OF h1 h2 h3 h4]
  obtain t where t: "create_lookup_table city_block ?arr (create_lab_array int_lab) = Inr t"
    and u: "unat (t ! (unat (200::uint8) * 65536 + unat (10::uint8) * 256 + unat (10::uint8))) \<le> 0"
    by blast
  have "t ! 13109770 = 0" using u by (simp add: unat_eq_0)
  with t have "\<exists>t. create_lookup_table city_block ?arr (create_lab_array int_lab) = Inr t
         \<and> t ! 13109770 = 0" by blast
  with h1 h2 h3 show ?thesis by simp
qed

text \<open>
  Without the upper bound the property fails. In a palette of 65536 times red followed
  by blue twice, the colours 65536 and 65537 are both at the minimal distance from the
  query blue; the entry of the table for blue is 0, which is neither the lowest of the
  two indices nor the index of a colour at minimal distance.
\<close>

theorem lowest_index_on_ties_counterexample:
  "\<not> isl (create_lookup_table city_block
            (replicate 65536 (int_lab (255, 0, 0)) @ [int_lab (0, 0, 255), int_lab (0, 0, 255)])
            (create_lab_array int_lab))
   \<and> create_lab_array int_lab ! 255 = int_lab (0, 0, 255)
   \<and> lab_distance city_block (int_lab (0, 0, 255))
         ((replicate 65536 (int_lab (255, 0, 0)) @ [int_lab (0, 0, 255), int_lab (0, 0, 255)]) ! 65536) = 0
   \<and> lab_distance city_block (int_lab (0, 0, 255))
         ((replicate 65536 (int_lab (255, 0, 0)) @ [int_lab (0, 0, 255), int_lab (0, 0, 255)]) ! 65537) = 0
   \<and> list_all ((\<le>) 0) (map (lab_distance city_block (int_lab (0, 0, 255)))
         (replicate 65536 (int_lab (255, 0, 0)) @ [int_lab (0, 0, 255), int_lab (0, 0, 255)]))
   \<and> unat (projr (create_lookup_table city_block
            (replicate 65536 (int_lab (255, 0, 0)) @ [int_lab (0, 0, 255), int_lab (0, 0, 255)])
            (create_lab_array int_lab)) ! 255) = 0
   \<and> lab_distance city_block (int_lab (0, 0, 255))
         ((replicate 65536 (int_lab (255, 0, 0)) @ [int_lab (0, 0, 255), int_lab (0, 0, 255)]) ! 0) = 510"
proof -
  define n :: nat where "n = 65536"
  define arr :: "int lab list"
    where "arr = replicate n (int_lab (255, 0, 0)) @ [int_lab (0, 0, 255), int_lab (0, 0, 255)]"
  have i: "(255::nat) < 256 ^ 3" by simp
  have lt: "lab_distance city_block (create_lab_array int_lab ! 255) (int_lab (0, 0, 255))
              < lab_distance city_block (create_lab_array int_lab ! 255) (int_lab (255, 0, 0))"
    unfolding blue_index red_blue_dist by simp
  have bs: "list_all (\<lambda>c. lab_distance city_block (create_lab_array int_lab ! 255) (int_lab (0, 0, 255))
                          \<le> lab_distance city_block (create_lab_array int_lab ! 255) c)
              [int_lab (0, 0, 255)]"
    by simp
  from entry_after_run [OF lt bs i, of n] obtain t
    where t: "create_lookup_table city_block arr (create_lab_array int_lab) = Inr t"
      and e: "t ! 255 = of_nat n"
    unfolding arr_def by (elim exE conjE)
  have u: "unat (t ! 255) = 0" unfolding e n_def by (rule wrap_65536)
  have a0: "arr ! 0 = int_lab (255, 0, 0)" by (simp add: arr_def n_def nth_append)
  have an: "arr ! 65536 = int_lab (0, 0, 255)"
    using nth_append_length [of "replicate n (int_lab (255, 0, 0))" "int_lab (0, 0, 255)"
        "[int_lab (0, 0, 255)]"]
    by (simp add: arr_def n_def)
  have an1: "arr ! 65537 = int_lab (0, 0, 255)"
    using nth_append_length_plus [of "replicate n (int_lab (255, 0, 0))"
        "[int_lab (0, 0, 255), int_lab (0, 0, 255)]" 1]
    by (simp add: arr_def n_def)
  have dn: "lab_distance city_block (int_lab (0, 0, 255)) (arr ! 65536) = 0"
    unfolding an red_blue_dist by (rule refl)
  have dn1: "lab_distance city_block (int_lab (0, 0, 255)) (arr ! 65537) = 0"
    unfolding an1 red_blue_dist by (rule refl)
  have d0: "lab_distance city_block (int_lab (0, 0, 255)) (arr ! 0) = 510"
    unfolding a0 red_blue_dist by (rule refl)
  have m: "list_all ((\<le>) 0) (map (lab_distance city_block (int_lab (0, 0, 255))) arr)"
    unfolding arr_def by (simp add: list_all_iff red_blue_dist)
  have r: "\<not> isl (create_lookup_table city_block arr (create_lab_array int_lab))"
    unfolding t by simp
  have u': "unat (projr (create_lookup_table city_block arr (create_lab_array int_lab)) ! 255) = 0"
    unfolding t sum.sel by (rule u)
  have "\<not> isl (create_lookup_table city_block arr (create_lab_array int_lab))
     \<and> create_lab_array int_lab ! 255 = int_lab (0, 0, 255)
     \<and> lab_distance city_block (int_lab (0, 0, 255)) (arr ! 65536) = 0
     \<and> lab_distance city_block (int_lab (0, 0, 255)) (arr ! 65537) = 0
     \<and> list_all ((\<le>) 0) (map (lab_distance city_block (int_lab (0, 0, 255))) arr)
     \<and> unat (projr (create_lookup_table city_block arr (create_lab_array int_lab)) ! 255) = 0
     \<and> lab_distance city_block (int_lab (0, 0, 255)) (arr ! 0) = 510"
    by (intro conjI) (rule r blue_index dn dn1 m u' d0)+
  then show ?thesis unfolding arr_def n_def .
qed

text \<open>
  C4. The table does not depend on the order in which the iterations of the parallel
  loop run: every schedule that runs exactly the iterations \<open>0, ..., 256^3 - 1\<close> (in
  any order and partition) gives the table of any other such schedule, which is the table
  of the loop run in index order; and the entry of a slot depends only on the row of
  \<open>all_lab\<close> at that slot and on the palette, not on the other rows.
\<close>

theorem table_independent_of_schedule:
  assumes s1: "\<forall>i. i \<in> set sched \<longleftrightarrow> i < (256 ^ 3 :: nat)"
    and s2: "\<forall>i. i \<in> set sched' \<longleftrightarrow> i < (256 ^ 3 :: nat)"
  shows "create_lookup_table_sched delta_e sched arr_lab all_lab
           = create_lookup_table_sched delta_e sched' arr_lab all_lab
       \<and> create_lookup_table_sched delta_e sched arr_lab all_lab
           = create_lookup_table delta_e arr_lab all_lab
       \<and> (\<forall>all_lab' t t' i.
             create_lookup_table_sched delta_e sched arr_lab all_lab = Inr t
             \<and> create_lookup_table_sched delta_e sched' arr_lab all_lab' = Inr t'
             \<and> i < 256 ^ 3 \<and> all_lab' ! i = all_lab ! i
             \<longrightarrow> t ! i = t' ! i)"
proof -
  have eq: "create_lookup_table_sched delta_e a arr_lab all_lab
              = create_lookup_table_sched delta_e b arr_lab all_lab"
    if a: "\<forall>i. i \<in> set a \<longleftrightarrow> i < (256 ^ 3 :: nat)"
      and b: "\<forall>i. i \<in> set b \<longleftrightarrow> i < (256 ^ 3 :: nat)" for a b
  proof (cases "arr_lab = []")
    case True
    show ?thesis
      unfolding True
      by (simp only: sched_table_empty_palette)
  next
    case False
    then show ?thesis using a b by (rule sched_table_unique)
  qed
  show ?thesis
  proof (intro conjI allI impI)
    show "create_lookup_table_sched delta_e sched arr_lab all_lab
            = create_lookup_table_sched delta_e sched' arr_lab all_lab"
      using s1 s2 by (rule eq)
    show "create_lookup_table_sched delta_e sched arr_lab all_lab
            = create_lookup_table delta_e arr_lab all_lab"
      unfolding create_lookup_table_def using s1 seq_schedule by (rule eq)
  next
    fix all_lab' t t' i
    assume h: "create_lookup_table_sched delta_e sched arr_lab all_lab = Inr t
             \<and> create_lookup_table_sched delta_e sched' arr_lab all_lab' = Inr t'
             \<and> i < 256 ^ 3 \<and> all_lab' ! i = all_lab ! i"
    from h have t: "create_lookup_table_sched delta_e sched arr_lab all_lab = Inr t" by (elim conjE)
    from h have t': "create_lookup_table_sched delta_e sched' arr_lab all_lab' = Inr t'" by (elim conjE)
    from h have i: "i < 256 ^ 3" by (elim conjE)
    from h have same: "all_lab' ! i = all_lab ! i" by (elim conjE)
    show "t ! i = t' ! i" using s1 s2 t t' i same by (rule sched_table_slot)
  qed
qed

theorem table_independent_of_schedule_witness:
  "(\<forall>i. i \<in> set (rev [0..<256 ^ 3]) \<longleftrightarrow> i < (256 ^ 3 :: nat))
   \<and> (\<forall>i. i \<in> set [0..<256 ^ 3] \<longleftrightarrow> i < (256 ^ 3 :: nat))
   \<and> create_lookup_table_sched city_block (rev [0..<256 ^ 3]) [(255, 0, 0), (0, 0, 255)]
         (create_lab_array int_lab)
       = create_lookup_table city_block [(255, 0, 0), (0, 0, 255)] (create_lab_array int_lab)"
proof (intro conjI)
  show "\<forall>i. i \<in> set (rev [0..<256 ^ 3]) \<longleftrightarrow> i < (256 ^ 3 :: nat)" by (rule rev_schedule)
  show "\<forall>i. i \<in> set [0..<256 ^ 3] \<longleftrightarrow> i < (256 ^ 3 :: nat)" by (rule seq_schedule)
  from table_independent_of_schedule [OF rev_schedule seq_schedule, of city_block
      "[(255, 0, 0), (0, 0, 255)]" "create_lab_array int_lab"]
  show "create_lookup_table_sched city_block (rev [0..<256 ^ 3]) [(255, 0, 0), (0, 0, 255)]
         (create_lab_array int_lab)
       = create_lookup_table city_block [(255, 0, 0), (0, 0, 255)] (create_lab_array int_lab)"
    by (elim conjE)
qed

text \<open>
  C9. For a palette with at least one colour, \<open>_create_lookup_table\<close> returns a table
  whose entries are all below the number of colours. Hence \<open>Palette.build\<close> on a
  palette whose file loads into at least one colour saves a table of \<open>256^3\<close> entries
  that are all indices into the palette's colours, and \<open>convert_to_rgbs\<close> with that
  table returns a result on any image: no index is out of range.
\<close>

theorem table_entries_index_palette:
  assumes "rgbs w p = (Inr cs, w1)" and "cs \<noteq> []"
    and "lookup_table_memo (objs w p) = None"
  shows "\<exists>t w'. build delta_e rgb_to_lab w p = (Inr (), w')
           \<and> npy_files w' (cached_data_path (objs w' p)) = Some t
           \<and> rgbs w' p = (Inr cs, w') \<and> length t = 256 ^ 3
           \<and> (\<forall>i<256 ^ 3. unat (t ! i) < length cs)
           \<and> (\<forall>img. \<exists>out w''. convert_to_rgbs w' p img = (Inr out, w''))
           \<and> (\<forall>arr_lab all_lab. arr_lab \<noteq> [] \<longrightarrow>
                 (\<exists>u. create_lookup_table delta_e arr_lab all_lab = Inr u
                    \<and> length u = 256 ^ 3
                    \<and> (\<forall>i<256 ^ 3. unat (u ! i) < length arr_lab)))"
proof -
  from after_build [OF assms, of delta_e rgb_to_lab] obtain t w'
    where a: "build delta_e rgb_to_lab w p = (Inr (), w')"
      "npy_files w' (cached_data_path (objs w' p)) = Some t"
      "rgbs w' p = (Inr cs, w')" "length t = 256 ^ 3"
      "\<forall>i<256 ^ 3. unat (t ! i) < length cs"
    and c: "\<forall>img. \<exists>w''. convert_to_rgbs w' p img
               = (Inr (map_ndarray (\<lambda>c. cs ! unat (t ! rgb_to_ind_scalar c)) img), w'')"
    by (elim exE conjE)
  have c': "\<forall>img. \<exists>out w''. convert_to_rgbs w' p img = (Inr out, w'')"
    using c by blast
  have pure: "\<forall>arr_lab all_lab. arr_lab \<noteq> [] \<longrightarrow>
                 (\<exists>u. create_lookup_table delta_e arr_lab all_lab = Inr u
                    \<and> length u = 256 ^ 3
                    \<and> (\<forall>i<256 ^ 3. unat (u ! i) < length arr_lab))"
    using entries_below [of _ delta_e] by blast
  show ?thesis
    by (intro exI conjI) (rule a c' pure)+
qed

theorem table_entries_index_palette_witness:
  "fst (rgbs red_blue_world 1) = Inr [(255, 0, 0), (0, 0, 255)]
   \<and> [(255, 0, 0), (0, 0, 255) :: rgb] \<noteq> []
   \<and> lookup_table_memo (objs red_blue_world 1) = None
   \<and> fst (build city_block int_lab red_blue_world 1) = Inr ()
   \<and> (\<exists>out w''. convert_to_rgbs (snd (build city_block int_lab red_blue_world 1)) 1
                     (Elem (200, 10, 10)) = (Inr out, w''))"
proof -
  have ne: "[(255, 0, 0), (0, 0, 255) :: rgb] \<noteq> []" by simp
  from table_entries_index_palette [OF red_blue_rgbs_pair ne red_blue_memo,
      of city_block int_lab]
  obtain t w' where b: "build city_block int_lab red_blue_world 1 = (Inr (), w')"
    and "npy_files w' (cached_data_path (objs w' 1)) = Some t"
    and "rgbs w' 1 = (Inr [(255, 0, 0), (0, 0, 255)], w')"
    and "length t = 256 ^ 3"
    and "\<forall>i<256 ^ 3. unat (t ! i) < length [(255, 0, 0), (0, 0, 255) :: rgb]"
    and c: "\<forall>img. \<exists>out w''. convert_to_rgbs w' 1 img = (Inr out, w'')"
    and "\<forall>arr_lab all_lab. arr_lab \<noteq> [] \<longrightarrow>
                 (\<exists>u. create_lookup_table city_block arr_lab (all_lab :: int lab list) = Inr u
                    \<and> length u = 256 ^ 3
                    \<and> (\<forall>i<256 ^ 3. unat (u ! i) < length arr_lab))"
    by (elim exE conjE)
  have s: "snd (build city_block int_lab red_blue_world 1) = w'" using b by simp
  have f: "fst (build city_block int_lab red_blue_world 1) = Inr ()" using b by simp
  have "\<exists>out w''. convert_to_rgbs (snd (build city_block int_lab red_blue_world 1)) 1
                     (Elem (200, 10, 10)) = (Inr out, w'')"
    unfolding s using c by blast
  with red_blue_rgbs ne red_blue_memo f show ?thesis by (intro conjI)
qed

text \<open>
  C5. When \<open>quantize_with_palette\<close> or \<open>Palette.convert_to_rgbs\<close> returns, the
  result has the shape of the image (of any rank, with trailing dimension 3); for a
  single triplet it is a single triplet. The shape of the result of \<open>rgb_to_ind\<close> is
  taken from the spec.
\<close>

theorem quantize_preserves_shape:
  "(quantize_with_palette w img palette = (Inr out, w')
      \<longrightarrow> shape3 out = shape3 img \<and> (\<forall>c. img = Elem c \<longrightarrow> (\<exists>c'. out = Elem c')))
   \<and> (convert_to_rgbs w p img = (Inr out, w')
      \<longrightarrow> shape3 out = shape3 img \<and> (\<forall>c. img = Elem c \<longrightarrow> (\<exists>c'. out = Elem c')))"
proof -
  have "shape3 out = shape3 img \<and> (\<forall>c. img = Elem c \<longrightarrow> (\<exists>c'. out = Elem c'))"
    if "shape out = shape img"
  proof -
    have "\<exists>c'. out = Elem c'" if "img = Elem c" for c
    proof -
      have "shape out = []" using \<open>shape out = shape img\<close> that by simp
      then show ?thesis by (simp add: shape_Elem_iff)
    qed
    then show ?thesis using \<open>shape out = shape img\<close> by (simp add: shape3_def)
  qed
  then show ?thesis
    using quantize_with_palette_shape [of w img palette out w']
      convert_to_rgbs_shape [of w p img out w'] by blast
qed

theorem quantize_preserves_shape_witness:
  "\<exists>out w''. quantize_with_palette (snd (build city_block int_lab red_blue_world 1))
         (Arr [Arr [Elem (200, 10, 10), Elem (10, 10, 200)]]) (Obj 1) = (Inr out, w'')
       \<and> shape3 out = [1, 2, 3]"
proof -
  let ?img = "Arr [Arr [Elem (200, 10, 10), Elem (10, 10, 200)]] :: rgb ndarray"
  from red_blue_quantize [of ?img] obtain out w''
    where q: "quantize_with_palette (snd (build city_block int_lab red_blue_world 1))
                ?img (Obj 1) = (Inr out, w'')"
    by blast
  from quantize_preserves_shape [of "snd (build city_block int_lab red_blue_world 1)" ?img
      "Obj 1" out w''] q
  have "shape3 out = shape3 ?img" by blast
  then have "shape3 out = [1, 2, 3]" by (simp add: shape3_def)
  with q show ?thesis by blast
qed

end
